theory Spec2Isabelle
  imports Complex_Main "HOL-Library.Sublist"
begin

section \<open>Values of the Python program\<close>

text \<open>
  The service in \<^verbatim>\<open>src/app.py\<close> is a Flask application. Its handlers read the parsed
  JSON body of the request, so the values they compute with are JSON values as Python's
  \<^verbatim>\<open>json\<close> module decodes them: \<^verbatim>\<open>None\<close>, booleans, unbounded integers, floats,
  strings, lists and dictionaries. A finite float is an exact rational number, and Python
  compares an integer with a float exactly, so a finite float is modelled by its rational
  value; the three non-finite floats the decoder accepts are constructors of their own.
  A dictionary is an association list read by \<open>map_of\<close>.
\<close>

datatype json =
    JNull
  | JBool bool
  | JInt int
  | JFloat rat
  | JNaN
  | JInf bool
  | JStr string
  | JArr "json list"
  | JObj "(string \<times> json) list"

text \<open>Python's truth value of an object (\<^verbatim>\<open>not data\<close>, \<^verbatim>\<open>if missing_fields\<close>).\<close>

fun truthy :: "json \<Rightarrow> bool" where
  "truthy JNull = False"
| "truthy (JBool b) = b"
| "truthy (JInt n) = (n \<noteq> 0)"
| "truthy (JFloat q) = (q \<noteq> 0)"
| "truthy JNaN = True"
| "truthy (JInf positive) = True"
| "truthy (JStr s) = (s \<noteq> [])"
| "truthy (JArr xs) = (xs \<noteq> [])"
| "truthy (JObj kvs) = (kvs \<noteq> [])"

subsection \<open>Exceptions\<close>

text \<open>
  Every exception the program can meet is a value. \<open>HTTPException code description\<close> is
  what Flask's \<^verbatim>\<open>abort(code, description=...)\<close> raises; the description is the text the
  source gives, or an f-string \<^verbatim>\<open>f"prefix{str(e)}"\<close> around a caught exception, or the
  framework's default text when the source gives none (\<^verbatim>\<open>get_or_404\<close>). All of them are
  subclasses of Python's \<^verbatim>\<open>Exception\<close>; \<open>ExpiredSignatureError\<close> is a subclass of
  \<open>InvalidTokenError\<close>.
\<close>

datatype exc =
    HTTPException nat descr
  | ExpiredSignatureError
  | InvalidTokenError string
  | ValueError
  | TypeError
  | AttributeError
  | KeyError
  | RuntimeError string
  | SQLAlchemyError
and descr =
    Text string
  | Formatted string exc
  | DefaultDescription

definition abort :: "nat \<Rightarrow> descr \<Rightarrow> exc + 'a" where
  "abort code description = Inl (HTTPException code description)"

subsection \<open>Strings\<close>

text \<open>Python's \<^verbatim>\<open>sub in s\<close> on two strings: \<open>sub\<close> occurs in \<open>s\<close> as a contiguous piece.\<close>

fun contains_str :: "string \<Rightarrow> string \<Rightarrow> bool" where
  "contains_str sub [] = (sub = [])"
| "contains_str sub (c # cs) = (prefix sub (c # cs) \<or> contains_str sub cs)"

text \<open>Python's \<^verbatim>\<open>sep.join(xs)\<close>.\<close>

fun join :: "string \<Rightarrow> string list \<Rightarrow> string" where
  "join sep [] = []"
| "join sep [x] = x"
| "join sep (x # y # ys) = x @ sep @ join sep (y # ys)"

text \<open>
  The header value is a string of code points below 256 (WSGI hands headers over decoded
  as Latin-1). \<open>isspace\<close> lists the code points Python's \<^verbatim>\<open>str.split()\<close> treats as
  whitespace in that range, and \<open>lower_char\<close> is \<^verbatim>\<open>str.lower()\<close> there.
\<close>

definition isspace :: "char \<Rightarrow> bool" where
  "isspace c = ((of_char c :: nat) \<in> set [9, 10, 11, 12, 13, 28, 29, 30, 31, 32, 133, 160])"

definition lower_char :: "char \<Rightarrow> char" where
  "lower_char c =
     (let n = (of_char c :: nat)
      in if (65 \<le> n \<and> n \<le> 90) \<or> (192 \<le> n \<and> n \<le> 222 \<and> n \<noteq> 215)
         then char_of (n + 32) else c)"

definition lower :: "string \<Rightarrow> string" where
  "lower s = map lower_char s"

text \<open>
  \<^verbatim>\<open>s.split()\<close> with no argument: the maximal runs of non-whitespace, in order.
  \<open>cur\<close> is the run being read.
\<close>

fun split_from :: "string \<Rightarrow> string \<Rightarrow> string list" where
  "split_from cur [] = (if cur = [] then [] else [cur])"
| "split_from cur (c # cs) =
     (if isspace c then (if cur = [] then split_from [] cs else cur # split_from [] cs)
      else split_from (cur @ [c]) cs)"

definition split :: "string \<Rightarrow> string list" where
  "split s = split_from [] s"

subsection \<open>Operations on the request body\<close>

text \<open>
  \<^verbatim>\<open>key in data\<close> for a string key: key membership in a dictionary, element membership in
  a list, substring test in a string, and \<^verbatim>\<open>TypeError\<close> on anything else.
\<close>

fun py_contains :: "string \<Rightarrow> json \<Rightarrow> exc + bool" where
  "py_contains k (JObj kvs) = Inr (k \<in> set (map fst kvs))"
| "py_contains k (JArr xs) = Inr (JStr k \<in> set xs)"
| "py_contains k (JStr s) = Inr (contains_str k s)"
| "py_contains k other = Inl TypeError"

text \<open>\<^verbatim>\<open>data[key]\<close> for a string key: only a dictionary has string subscripts.\<close>

fun py_getitem :: "json \<Rightarrow> string \<Rightarrow> exc + json" where
  "py_getitem (JObj kvs) k = (case map_of kvs k of None \<Rightarrow> Inl KeyError | Some v \<Rightarrow> Inr v)"
| "py_getitem other k = Inl TypeError"

text \<open>
  \<^verbatim>\<open>d.get(key)\<close> on a dictionary: \<^verbatim>\<open>None\<close> for a missing key. On any other value
  \<^verbatim>\<open>data.get\<close> raises, since only a dictionary has the method.
\<close>

definition dict_get :: "(string \<times> json) list \<Rightarrow> string \<Rightarrow> json" where
  "dict_get kvs k = (case map_of kvs k of None \<Rightarrow> JNull | Some v \<Rightarrow> v)"

fun py_get :: "json \<Rightarrow> string \<Rightarrow> exc + json" where
  "py_get (JObj kvs) k = Inr (dict_get kvs k)"
| "py_get other k = Inl AttributeError"

text \<open>
  \<^verbatim>\<open>n <= v\<close> and \<^verbatim>\<open>v <= n\<close> for an integer literal \<open>n\<close>: defined on booleans (as 0 and 1),
  integers and floats, \<^verbatim>\<open>TypeError\<close> on every other value.
\<close>

fun int_le :: "int \<Rightarrow> json \<Rightarrow> exc + bool" where
  "int_le n (JBool b) = Inr (n \<le> (if b then 1 else 0))"
| "int_le n (JInt m) = Inr (n \<le> m)"
| "int_le n (JFloat q) = Inr (of_int n \<le> q)"
| "int_le n JNaN = Inr False"
| "int_le n (JInf positive) = Inr positive"
| "int_le n other = Inl TypeError"

fun le_int :: "json \<Rightarrow> int \<Rightarrow> exc + bool" where
  "le_int (JBool b) n = Inr ((if b then 1 else 0) \<le> n)"
| "le_int (JInt m) n = Inr (m \<le> n)"
| "le_int (JFloat q) n = Inr (q \<le> of_int n)"
| "le_int JNaN n = Inr False"
| "le_int (JInf positive) n = Inr (\<not> positive)"
| "le_int other n = Inl TypeError"

text \<open>
  The chained comparison \<^verbatim>\<open>1 <= data["rating"] <= 5\<close>: the second comparison is evaluated
  only when the first is true.
\<close>

definition rating_in_range :: "json \<Rightarrow> exc + bool" where
  "rating_in_range r =
     (case int_le 1 r of
        Inl e \<Rightarrow> Inl e
      | Inr False \<Rightarrow> Inr False
      | Inr True \<Rightarrow> le_int r 5)"

section \<open>Process configuration and startup\<close>

text \<open>
  The module body of \<^verbatim>\<open>app.py\<close> runs once at import. \<open>environ\<close> is the process
  environment after \<^verbatim>\<open>load_dotenv()\<close>: \<^verbatim>\<open>os.getenv(var)\<close> is \<open>environ var\<close>, and
  \<^verbatim>\<open>not os.getenv(var)\<close> holds for an unset variable and for an empty one.
\<close>

definition required_vars :: "string list" where
  "required_vars = [''SECRET_KEY'', ''DATABASE_URL'', ''ADMIN_PASSWORD'']"

definition getenv_falsy :: "(string \<Rightarrow> string option) \<Rightarrow> string \<Rightarrow> bool" where
  "getenv_falsy environ var = (case environ var of None \<Rightarrow> True | Some v \<Rightarrow> v = [])"

definition missing_vars :: "(string \<Rightarrow> string option) \<Rightarrow> string list" where
  "missing_vars environ = filter (getenv_falsy environ) required_vars"

text \<open>
  \<open>startup\<close> returns normally when the module body gets past the check (the application
  object is then built and the process serves requests) and raises \<^verbatim>\<open>RuntimeError\<close>
  otherwise.
\<close>

definition startup :: "(string \<Rightarrow> string option) \<Rightarrow> exc + unit" where
  "startup environ =
     (if missing_vars environ \<noteq> []
      then Inl (RuntimeError (''Missing required environment variables: ''
                  @ join '', '' (missing_vars environ)))
      else Inr ())"

section \<open>The admin guard\<close>

text \<open>
  \<^verbatim>\<open>pyjwt.decode(token, key, algorithms=["HS256"])\<close> belongs to the PyJWT library. The
  model takes it as a parameter \<open>jwt_decode token key\<close> with the three outcomes the guard
  distinguishes: \<^verbatim>\<open>ExpiredSignatureError\<close>, any other \<^verbatim>\<open>InvalidTokenError\<close> (with the
  library's message), or the decoded payload, a dictionary of claims.
\<close>

datatype decoded =
    Expired
  | Invalid string
  | Claims "(string \<times> json) list"

text \<open>The body of the \<^verbatim>\<open>try\<close> block of \<^verbatim>\<open>decorated\<close>, for a header that is present.\<close>

definition admin_required_try ::
  "string \<Rightarrow> (string \<Rightarrow> string \<Rightarrow> decoded) \<Rightarrow> string \<Rightarrow> exc + unit" where
  "admin_required_try SECRET_KEY jwt_decode auth_header =
     (case split auth_header of
        [scheme, token] \<Rightarrow>
          if lower scheme \<noteq> ''bearer''
          then abort 401 (Text ''Invalid authorization scheme'')
          else (case jwt_decode token SECRET_KEY of
                  Expired \<Rightarrow> Inl ExpiredSignatureError
                | Invalid msg \<Rightarrow> Inl (InvalidTokenError msg)
                | Claims payload \<Rightarrow>
                    if \<not> truthy (dict_get payload ''admin'')
                    then abort 403 (Text ''Admin privileges required'')
                    else Inr ())
      | _ \<Rightarrow> Inl ValueError)"

text \<open>
  The three \<^verbatim>\<open>except\<close> clauses, in the source's order. An exception none of them names
  (the \<^verbatim>\<open>HTTPException\<close> of an \<^verbatim>\<open>abort\<close> inside the block among them) leaves the
  decorator as it is.
\<close>

fun admin_required_except :: "exc \<Rightarrow> exc" where
  "admin_required_except ExpiredSignatureError = HTTPException 401 (Text ''Token has expired'')"
| "admin_required_except (InvalidTokenError msg) =
     HTTPException 401 (Formatted ''Invalid token: '' (InvalidTokenError msg))"
| "admin_required_except ValueError =
     HTTPException 401 (Text ''Invalid authorization header format'')"
| "admin_required_except e = e"

text \<open>
  \<open>admin_required\<close> wraps a handler \<open>f\<close>, a function from the state of the store to an
  outcome and the state afterwards. \<open>auth_header\<close> is
  \<^verbatim>\<open>request.headers.get("Authorization")\<close>.
\<close>

definition admin_required ::
  "string \<Rightarrow> (string \<Rightarrow> string \<Rightarrow> decoded) \<Rightarrow> ('s \<Rightarrow> (exc + 'a) \<times> 's)
     \<Rightarrow> string option \<Rightarrow> 's \<Rightarrow> (exc + 'a) \<times> 's" where
  "admin_required SECRET_KEY jwt_decode f auth_header st =
     (case auth_header of
        None \<Rightarrow> (abort 401 (Text ''Authorization header is missing''), st)
      | Some h \<Rightarrow>
          if h = [] then (abort 401 (Text ''Authorization header is missing''), st)
          else (case admin_required_try SECRET_KEY jwt_decode h of
                  Inl e \<Rightarrow> (Inl (admin_required_except e), st)
                | Inr u \<Rightarrow> f st))"

section \<open>Records and the store\<close>

text \<open>
  The three model classes. A row of the model holds, column by column, the Python value
  the handler handed to the storage engine. What the engine returns when the row is read
  again can differ where a value is of another type than the column's (a number handed to
  a text column, a boolean handed to an integer column): that reading is a parameter of
  the handlers that read a row back after a commit, the three updates below.
  \<open>datetime\<close> is an instant of UTC time, in seconds.
\<close>

type_synonym datetime = int

record inquiry =
  i_id :: nat
  i_name :: json
  i_email :: json
  i_phone :: json
  i_company :: json
  i_country :: json
  i_job_title :: json
  i_job_details :: json
  i_timestamp :: datetime

record review =
  r_id :: nat
  r_name :: json
  r_company :: json
  r_review :: json
  r_rating :: json
  r_timestamp :: datetime

record newsletter =
  n_id :: nat
  n_name :: json
  n_email :: json
  n_timestamp :: datetime

record db =
  inquiries :: "inquiry list"
  reviews :: "review list"
  newsletters :: "newsletter list"

text \<open>
  \<^verbatim>\<open>db.session\<close>: the rows as committed and the session's working view of them, which
  attribute assignments, \<^verbatim>\<open>add\<close> and \<^verbatim>\<open>delete\<close> change. A request starts with the two
  equal.
\<close>

record session =
  committed :: db
  working :: db

definition begin_session :: "db \<Rightarrow> session" where
  "begin_session d = \<lparr>committed = d, working = d\<rparr>"

text \<open>
  \<^verbatim>\<open>db.session.commit()\<close> flushes the working view to the engine. Whether the engine takes
  it (constraints, column types, the connection) is the parameter \<open>accepts\<close>; a refused
  commit raises and leaves the committed rows as they were.
\<close>

definition session_commit :: "(db \<Rightarrow> bool) \<Rightarrow> session \<Rightarrow> (exc + unit) \<times> session" where
  "session_commit accepts s =
     (if accepts (working s) then (Inr (), s\<lparr>committed := working s\<rparr>)
      else (Inl SQLAlchemyError, s))"

definition session_rollback :: "session \<Rightarrow> session" where
  "session_rollback s = s\<lparr>working := committed s\<rparr>"

text \<open>
  Modelled from the spec: the storage engine's assignment of the primary key
  ("system-generated, unique"), which is not code of the repository. The next id is one
  more than the largest id of the table.
\<close>

definition fresh_id :: "nat list \<Rightarrow> nat" where
  "fresh_id ids = Suc (fold max ids 0)"

text \<open>Sequencing of steps that may raise: an exception ends the sequence.\<close>

fun and_then :: "(exc + 'a) \<times> 's \<Rightarrow> ('a \<Rightarrow> 's \<Rightarrow> (exc + 'b) \<times> 's) \<Rightarrow> (exc + 'b) \<times> 's" where
  "and_then (Inl e, s) k = (Inl e, s)"
| "and_then (Inr a, s) k = k a s"

text \<open>
  \<^verbatim>\<open>if "k" in data: obj.k = data["k"]\<close>: \<open>setter\<close> assigns the attribute and \<open>put\<close> makes
  the session's working view hold the changed object.
\<close>

definition assign_if ::
  "string \<Rightarrow> json \<Rightarrow> (json \<Rightarrow> 'r \<Rightarrow> 'r) \<Rightarrow> ('r \<Rightarrow> session \<Rightarrow> session) \<Rightarrow> 'r \<Rightarrow> session
     \<Rightarrow> (exc + 'r) \<times> session" where
  "assign_if k data setter put obj s =
     (case py_contains k data of
        Inl e \<Rightarrow> (Inl e, s)
      | Inr False \<Rightarrow> (Inr obj, s)
      | Inr True \<Rightarrow>
          (case py_getitem data k of
             Inl e \<Rightarrow> (Inl e, s)
           | Inr v \<Rightarrow> (Inr (setter v obj), put (setter v obj) s)))"

text \<open>Responses: a status code and a body, JSON or the error handler's object.\<close>

datatype body =
    Json json
  | Error string descr

datatype response = Response (status: nat) (content: body)

definition message :: "string \<Rightarrow> body" where
  "message m = Json (JObj [(''message'', JStr m)])"

text \<open>
  The pattern every writing handler ends with:
  \<^verbatim>\<open>except Exception as e: db.session.rollback(); abort(500, description=f"...{str(e)}")\<close>.
  It catches every exception of the \<^verbatim>\<open>try\<close> block, the \<^verbatim>\<open>HTTPException\<close> of an
  \<^verbatim>\<open>abort\<close> or of \<^verbatim>\<open>get_or_404\<close> included, since that class derives from
  \<^verbatim>\<open>Exception\<close>. The handler's outcome is paired with the rows committed at its end.
\<close>

definition except_Exception ::
  "string \<Rightarrow> (exc + response) \<times> session \<Rightarrow> (exc + response) \<times> db" where
  "except_Exception text_before r =
     (case r of
        (Inr resp, s) \<Rightarrow> (Inr resp, committed s)
      | (Inl e, s) \<Rightarrow> (abort 500 (Formatted text_before e), committed (session_rollback s)))"

text \<open>\<^verbatim>\<open>[field for field in required_fields if field not in data]\<close>.\<close>

fun missing_fields :: "string list \<Rightarrow> json \<Rightarrow> exc + string list" where
  "missing_fields [] data = Inr []"
| "missing_fields (f # fs) data =
     (case py_contains f data of
        Inl e \<Rightarrow> Inl e
      | Inr present \<Rightarrow>
          (case missing_fields fs data of
             Inl e \<Rightarrow> Inl e
           | Inr ms \<Rightarrow> Inr (if present then ms else f # ms)))"

text \<open>
  \<^verbatim>\<open>"a" not in data or "b" not in data or ...\<close>: evaluated left to right, stopping at the
  first key that is missing.
\<close>

fun any_missing :: "string list \<Rightarrow> json \<Rightarrow> exc + bool" where
  "any_missing [] data = Inr False"
| "any_missing (f # fs) data =
     (case py_contains f data of
        Inl e \<Rightarrow> Inl e
      | Inr False \<Rightarrow> Inr True
      | Inr True \<Rightarrow> any_missing fs data)"

text \<open>The decimal text of a number, as an f-string renders an id.\<close>

fun str_nat :: "nat \<Rightarrow> string" where
  "str_nat n =
     (if n < 10 then [char_of (48 + n)]
      else str_nat (n div 10) @ [char_of (48 + n mod 10)])"

section \<open>Inquiries\<close>

definition Inquiry ::
  "json \<Rightarrow> json \<Rightarrow> json \<Rightarrow> json \<Rightarrow> json \<Rightarrow> json \<Rightarrow> json \<Rightarrow> nat \<Rightarrow> datetime \<Rightarrow> inquiry" where
  "Inquiry name email phone company country job_title job_details ident ts =
     \<lparr>i_id = ident, i_name = name, i_email = email, i_phone = phone, i_company = company,
      i_country = country, i_job_title = job_title, i_job_details = job_details,
      i_timestamp = ts\<rparr>"

text \<open>
  \<^verbatim>\<open>db.session.add(obj)\<close>: the new row joins the working view. Its \<open>id\<close> and its
  \<open>timestamp\<close> (the column default \<^verbatim>\<open>datetime.utcnow\<close>) are the server's: \<open>mk\<close> is the
  object still waiting for them.
\<close>

definition session_add_inquiry :: "datetime \<Rightarrow> (nat \<Rightarrow> datetime \<Rightarrow> inquiry) \<Rightarrow> session \<Rightarrow> session" where
  "session_add_inquiry utcnow mk s =
     s\<lparr>working := (working s)\<lparr>inquiries :=
        inquiries (working s) @ [mk (fresh_id (map i_id (inquiries (working s)))) utcnow]\<rparr>\<rparr>"

definition find_inquiry :: "nat \<Rightarrow> db \<Rightarrow> inquiry option" where
  "find_inquiry ident d = find (\<lambda>r. i_id r = ident) (inquiries d)"

definition inquiry_get_or_404 :: "nat \<Rightarrow> session \<Rightarrow> (exc + inquiry) \<times> session" where
  "inquiry_get_or_404 ident s =
     (case find_inquiry ident (working s) of
        None \<Rightarrow> (abort 404 DefaultDescription, s)
      | Some obj \<Rightarrow> (Inr obj, s))"

definition put_inquiry :: "inquiry \<Rightarrow> session \<Rightarrow> session" where
  "put_inquiry obj s =
     s\<lparr>working := (working s)\<lparr>inquiries :=
        map (\<lambda>r. if i_id r = i_id obj then obj else r) (inquiries (working s))\<rparr>\<rparr>"

definition session_delete_inquiry :: "inquiry \<Rightarrow> session \<Rightarrow> session" where
  "session_delete_inquiry obj s =
     s\<lparr>working := (working s)\<lparr>inquiries :=
        filter (\<lambda>r. i_id r \<noteq> i_id obj) (inquiries (working s))\<rparr>\<rparr>"

definition inquiry_json :: "(datetime \<Rightarrow> string) \<Rightarrow> inquiry \<Rightarrow> body" where
  "inquiry_json isoformat i =
     Json (JObj [(''id'', JInt (int (i_id i))), (''name'', i_name i), (''email'', i_email i),
                 (''phone'', i_phone i), (''company'', i_company i),
                 (''country'', i_country i), (''job_title'', i_job_title i),
                 (''job_details'', i_job_details i),
                 (''timestamp'', JStr (isoformat (i_timestamp i)))])"

definition create_inquiry_try ::
  "(db \<Rightarrow> bool) \<Rightarrow> datetime \<Rightarrow> json \<Rightarrow> session \<Rightarrow> (exc + response) \<times> session" where
  "create_inquiry_try accepts utcnow data s0 =
     and_then (py_get data ''name'', s0) (\<lambda>name s.
     and_then (py_get data ''email'', s) (\<lambda>email s.
     and_then (py_get data ''phone'', s) (\<lambda>phone s.
     and_then (py_get data ''company'', s) (\<lambda>company s.
     and_then (py_get data ''country'', s) (\<lambda>country s.
     and_then (py_get data ''job_title'', s) (\<lambda>job_title s.
     and_then (py_get data ''job_details'', s) (\<lambda>job_details s.
     and_then (session_commit accepts
                 (session_add_inquiry utcnow
                    (Inquiry name email phone company country job_title job_details) s))
       (\<lambda>u s. (Inr (Response 201 (message ''Inquiry submitted successfully'')), s)))))))))"

definition create_inquiry ::
  "(db \<Rightarrow> bool) \<Rightarrow> datetime \<Rightarrow> json \<Rightarrow> db \<Rightarrow> (exc + response) \<times> db" where
  "create_inquiry accepts utcnow data d =
     (if \<not> truthy data then (abort 400 (Text ''No data provided''), d)
      else (case missing_fields [''name'', ''email''] data of
              Inl e \<Rightarrow> (Inl e, d)
            | Inr missing \<Rightarrow>
                if missing \<noteq> []
                then (abort 400 (Text (''Missing required fields: '' @ join '', '' missing)), d)
                else except_Exception ''Failed to create inquiry: ''
                       (create_inquiry_try accepts utcnow data (begin_session d))))"

definition delete_inquiry_try ::
  "(db \<Rightarrow> bool) \<Rightarrow> nat \<Rightarrow> session \<Rightarrow> (exc + response) \<times> session" where
  "delete_inquiry_try accepts inquiry_id s0 =
     and_then (inquiry_get_or_404 inquiry_id s0) (\<lambda>obj s.
     and_then (session_commit accepts (session_delete_inquiry obj s)) (\<lambda>u s.
       (Inr (Response 200
               (message (''Inquiry '' @ str_nat inquiry_id @ '' deleted successfully''))), s)))"

definition delete_inquiry :: "(db \<Rightarrow> bool) \<Rightarrow> nat \<Rightarrow> db \<Rightarrow> (exc + response) \<times> db" where
  "delete_inquiry accepts inquiry_id d =
     except_Exception ''Failed to delete inquiry: ''
       (delete_inquiry_try accepts inquiry_id (begin_session d))"

text \<open>
  The update handlers answer with the attributes of the object as they read after
  \<^verbatim>\<open>db.session.commit()\<close>. The commit expires the object, so each attribute read then
  loads the row from the engine again: \<open>refresh obj\<close> is the object with the values the
  engine returns for the row it was handed. The rows of the model keep the values handed
  over.
\<close>

definition update_inquiry_try ::
  "(db \<Rightarrow> bool) \<Rightarrow> (inquiry \<Rightarrow> inquiry) \<Rightarrow> (datetime \<Rightarrow> string) \<Rightarrow> nat \<Rightarrow> json \<Rightarrow> session
     \<Rightarrow> (exc + response) \<times> session" where
  "update_inquiry_try accepts refresh isoformat inquiry_id data s0 =
     and_then (inquiry_get_or_404 inquiry_id s0) (\<lambda>obj s.
     and_then (assign_if ''name'' data (\<lambda>v r. r\<lparr>i_name := v\<rparr>) put_inquiry obj s) (\<lambda>obj s.
     and_then (assign_if ''email'' data (\<lambda>v r. r\<lparr>i_email := v\<rparr>) put_inquiry obj s) (\<lambda>obj s.
     and_then (assign_if ''phone'' data (\<lambda>v r. r\<lparr>i_phone := v\<rparr>) put_inquiry obj s) (\<lambda>obj s.
     and_then (assign_if ''company'' data (\<lambda>v r. r\<lparr>i_company := v\<rparr>) put_inquiry obj s) (\<lambda>obj s.
     and_then (assign_if ''country'' data (\<lambda>v r. r\<lparr>i_country := v\<rparr>) put_inquiry obj s) (\<lambda>obj s.
     and_then (assign_if ''job_title'' data (\<lambda>v r. r\<lparr>i_job_title := v\<rparr>) put_inquiry obj s) (\<lambda>obj s.
     and_then (assign_if ''job_details'' data (\<lambda>v r. r\<lparr>i_job_details := v\<rparr>) put_inquiry obj s) (\<lambda>obj s.
     and_then (session_commit accepts s) (\<lambda>u s.
       (Inr (Response 200 (inquiry_json isoformat (refresh obj))), s))))))))))"

definition update_inquiry ::
  "(db \<Rightarrow> bool) \<Rightarrow> (inquiry \<Rightarrow> inquiry) \<Rightarrow> (datetime \<Rightarrow> string) \<Rightarrow> nat \<Rightarrow> json \<Rightarrow> db
     \<Rightarrow> (exc + response) \<times> db" where
  "update_inquiry accepts refresh isoformat inquiry_id data d =
     (if \<not> truthy data then (abort 400 (Text ''No data provided''), d)
      else except_Exception ''Failed to update inquiry: ''
             (update_inquiry_try accepts refresh isoformat inquiry_id data (begin_session d)))"

section \<open>Reviews\<close>

definition Review :: "json \<Rightarrow> json \<Rightarrow> json \<Rightarrow> json \<Rightarrow> nat \<Rightarrow> datetime \<Rightarrow> review" where
  "Review name company review_text rating ident ts =
     \<lparr>r_id = ident, r_name = name, r_company = company, r_review = review_text,
      r_rating = rating, r_timestamp = ts\<rparr>"

definition session_add_review :: "datetime \<Rightarrow> (nat \<Rightarrow> datetime \<Rightarrow> review) \<Rightarrow> session \<Rightarrow> session" where
  "session_add_review utcnow mk s =
     s\<lparr>working := (working s)\<lparr>reviews :=
        reviews (working s) @ [mk (fresh_id (map r_id (reviews (working s)))) utcnow]\<rparr>\<rparr>"

definition find_review :: "nat \<Rightarrow> db \<Rightarrow> review option" where
  "find_review ident d = find (\<lambda>r. r_id r = ident) (reviews d)"

definition review_get_or_404 :: "nat \<Rightarrow> session \<Rightarrow> (exc + review) \<times> session" where
  "review_get_or_404 ident s =
     (case find_review ident (working s) of
        None \<Rightarrow> (abort 404 DefaultDescription, s)
      | Some obj \<Rightarrow> (Inr obj, s))"

definition put_review :: "review \<Rightarrow> session \<Rightarrow> session" where
  "put_review obj s =
     s\<lparr>working := (working s)\<lparr>reviews :=
        map (\<lambda>r. if r_id r = r_id obj then obj else r) (reviews (working s))\<rparr>\<rparr>"

definition session_delete_review :: "review \<Rightarrow> session \<Rightarrow> session" where
  "session_delete_review obj s =
     s\<lparr>working := (working s)\<lparr>reviews :=
        filter (\<lambda>r. r_id r \<noteq> r_id obj) (reviews (working s))\<rparr>\<rparr>"

definition review_json :: "(datetime \<Rightarrow> string) \<Rightarrow> review \<Rightarrow> body" where
  "review_json isoformat r =
     Json (JObj [(''id'', JInt (int (r_id r))), (''name'', r_name r),
                 (''company'', r_company r), (''review'', r_review r),
                 (''rating'', r_rating r),
                 (''timestamp'', JStr (isoformat (r_timestamp r)))])"

definition submit_review_try ::
  "(db \<Rightarrow> bool) \<Rightarrow> datetime \<Rightarrow> json \<Rightarrow> session \<Rightarrow> (exc + response) \<times> session" where
  "submit_review_try accepts utcnow data s0 =
     and_then (py_getitem data ''name'', s0) (\<lambda>name s.
     and_then (py_getitem data ''company'', s) (\<lambda>company s.
     and_then (py_getitem data ''review'', s) (\<lambda>review_text s.
     and_then (py_getitem data ''rating'', s) (\<lambda>rating s.
     and_then (session_commit accepts
                 (session_add_review utcnow (Review name company review_text rating) s))
       (\<lambda>u s. (Inr (Response 201 (message ''Review submitted successfully'')), s))))))"

text \<open>
  In \<^verbatim>\<open>submit_review\<close> the presence test and the range test stand before the
  \<^verbatim>\<open>try\<close> block: what they raise leaves the handler as it is.
\<close>

definition submit_review ::
  "(db \<Rightarrow> bool) \<Rightarrow> datetime \<Rightarrow> json \<Rightarrow> db \<Rightarrow> (exc + response) \<times> db" where
  "submit_review accepts utcnow data d =
     (if \<not> truthy data
      then (abort 400 (Text ''Name, company, review, and rating are required''), d)
      else (case any_missing [''name'', ''company'', ''review'', ''rating''] data of
              Inl e \<Rightarrow> (Inl e, d)
            | Inr True \<Rightarrow>
                (abort 400 (Text ''Name, company, review, and rating are required''), d)
            | Inr False \<Rightarrow>
                (case py_getitem data ''rating'' of
                   Inl e \<Rightarrow> (Inl e, d)
                 | Inr rating \<Rightarrow>
                     (case rating_in_range rating of
                        Inl e \<Rightarrow> (Inl e, d)
                      | Inr False \<Rightarrow> (abort 400 (Text ''Rating must be between 1 and 5''), d)
                      | Inr True \<Rightarrow>
                          except_Exception ''Failed to submit review: ''
                            (submit_review_try accepts utcnow data (begin_session d))))))"

definition delete_review_try ::
  "(db \<Rightarrow> bool) \<Rightarrow> nat \<Rightarrow> session \<Rightarrow> (exc + response) \<times> session" where
  "delete_review_try accepts review_id s0 =
     and_then (review_get_or_404 review_id s0) (\<lambda>obj s.
     and_then (session_commit accepts (session_delete_review obj s)) (\<lambda>u s.
       (Inr (Response 200
               (message (''Review '' @ str_nat review_id @ '' deleted successfully''))), s)))"

definition delete_review :: "(db \<Rightarrow> bool) \<Rightarrow> nat \<Rightarrow> db \<Rightarrow> (exc + response) \<times> db" where
  "delete_review accepts review_id d =
     except_Exception ''Failed to delete review: ''
       (delete_review_try accepts review_id (begin_session d))"

text \<open>
  \<^verbatim>\<open>if "rating" in data:\<close> with its range test, which aborts inside the \<^verbatim>\<open>try\<close> block
  of \<^verbatim>\<open>update_review\<close>, after the three assignments before it.
\<close>

definition assign_rating :: "json \<Rightarrow> review \<Rightarrow> session \<Rightarrow> (exc + review) \<times> session" where
  "assign_rating data obj s =
     (case py_contains ''rating'' data of
        Inl e \<Rightarrow> (Inl e, s)
      | Inr False \<Rightarrow> (Inr obj, s)
      | Inr True \<Rightarrow>
          (case py_getitem data ''rating'' of
             Inl e \<Rightarrow> (Inl e, s)
           | Inr rating \<Rightarrow>
               (case rating_in_range rating of
                  Inl e \<Rightarrow> (Inl e, s)
                | Inr False \<Rightarrow> (abort 400 (Text ''Rating must be between 1 and 5''), s)
                | Inr True \<Rightarrow>
                    (Inr (obj\<lparr>r_rating := rating\<rparr>), put_review (obj\<lparr>r_rating := rating\<rparr>) s))))"

definition update_review_try ::
  "(db \<Rightarrow> bool) \<Rightarrow> (review \<Rightarrow> review) \<Rightarrow> (datetime \<Rightarrow> string) \<Rightarrow> nat \<Rightarrow> json \<Rightarrow> session
     \<Rightarrow> (exc + response) \<times> session" where
  "update_review_try accepts refresh isoformat review_id data s0 =
     and_then (review_get_or_404 review_id s0) (\<lambda>obj s.
     and_then (assign_if ''name'' data (\<lambda>v r. r\<lparr>r_name := v\<rparr>) put_review obj s) (\<lambda>obj s.
     and_then (assign_if ''company'' data (\<lambda>v r. r\<lparr>r_company := v\<rparr>) put_review obj s) (\<lambda>obj s.
     and_then (assign_if ''review'' data (\<lambda>v r. r\<lparr>r_review := v\<rparr>) put_review obj s) (\<lambda>obj s.
     and_then (assign_rating data obj s) (\<lambda>obj s.
     and_then (session_commit accepts s) (\<lambda>u s.
       (Inr (Response 200 (review_json isoformat (refresh obj))), s)))))))"

definition update_review ::
  "(db \<Rightarrow> bool) \<Rightarrow> (review \<Rightarrow> review) \<Rightarrow> (datetime \<Rightarrow> string) \<Rightarrow> nat \<Rightarrow> json \<Rightarrow> db
     \<Rightarrow> (exc + response) \<times> db" where
  "update_review accepts refresh isoformat review_id data d =
     (if \<not> truthy data then (abort 400 (Text ''No data provided''), d)
      else except_Exception ''Failed to update review: ''
             (update_review_try accepts refresh isoformat review_id data (begin_session d)))"

section \<open>Newsletter subscriptions\<close>

definition Newsletter :: "json \<Rightarrow> json \<Rightarrow> nat \<Rightarrow> datetime \<Rightarrow> newsletter" where
  "Newsletter name email ident ts =
     \<lparr>n_id = ident, n_name = name, n_email = email, n_timestamp = ts\<rparr>"

definition session_add_newsletter ::
  "datetime \<Rightarrow> (nat \<Rightarrow> datetime \<Rightarrow> newsletter) \<Rightarrow> session \<Rightarrow> session" where
  "session_add_newsletter utcnow mk s =
     s\<lparr>working := (working s)\<lparr>newsletters :=
        newsletters (working s)
          @ [mk (fresh_id (map n_id (newsletters (working s)))) utcnow]\<rparr>\<rparr>"

definition find_newsletter :: "nat \<Rightarrow> db \<Rightarrow> newsletter option" where
  "find_newsletter ident d = find (\<lambda>r. n_id r = ident) (newsletters d)"

definition newsletter_get_or_404 :: "nat \<Rightarrow> session \<Rightarrow> (exc + newsletter) \<times> session" where
  "newsletter_get_or_404 ident s =
     (case find_newsletter ident (working s) of
        None \<Rightarrow> (abort 404 DefaultDescription, s)
      | Some obj \<Rightarrow> (Inr obj, s))"

definition put_newsletter :: "newsletter \<Rightarrow> session \<Rightarrow> session" where
  "put_newsletter obj s =
     s\<lparr>working := (working s)\<lparr>newsletters :=
        map (\<lambda>r. if n_id r = n_id obj then obj else r) (newsletters (working s))\<rparr>\<rparr>"

definition session_delete_newsletter :: "newsletter \<Rightarrow> session \<Rightarrow> session" where
  "session_delete_newsletter obj s =
     s\<lparr>working := (working s)\<lparr>newsletters :=
        filter (\<lambda>r. n_id r \<noteq> n_id obj) (newsletters (working s))\<rparr>\<rparr>"

definition newsletter_json :: "(datetime \<Rightarrow> string) \<Rightarrow> newsletter \<Rightarrow> body" where
  "newsletter_json isoformat n =
     Json (JObj [(''id'', JInt (int (n_id n))), (''name'', n_name n), (''email'', n_email n),
                 (''timestamp'', JStr (isoformat (n_timestamp n)))])"

definition create_newsletter_try ::
  "(db \<Rightarrow> bool) \<Rightarrow> datetime \<Rightarrow> json \<Rightarrow> session \<Rightarrow> (exc + response) \<times> session" where
  "create_newsletter_try accepts utcnow data s0 =
     and_then (py_get data ''name'', s0) (\<lambda>name s.
     and_then (py_get data ''email'', s) (\<lambda>email s.
     and_then (session_commit accepts
                 (session_add_newsletter utcnow (Newsletter name email) s))
       (\<lambda>u s. (Inr (Response 201
                       (message ''Newsletter subscription submitted successfully'')), s))))"

definition create_newsletter ::
  "(db \<Rightarrow> bool) \<Rightarrow> datetime \<Rightarrow> json \<Rightarrow> db \<Rightarrow> (exc + response) \<times> db" where
  "create_newsletter accepts utcnow data d =
     (if \<not> truthy data then (abort 400 (Text ''No data provided''), d)
      else (case missing_fields [''name'', ''email''] data of
              Inl e \<Rightarrow> (Inl e, d)
            | Inr missing \<Rightarrow>
                if missing \<noteq> []
                then (abort 400 (Text (''Missing required fields: '' @ join '', '' missing)), d)
                else except_Exception ''Failed to create newsletter: ''
                       (create_newsletter_try accepts utcnow data (begin_session d))))"

definition delete_newsletter_try ::
  "(db \<Rightarrow> bool) \<Rightarrow> nat \<Rightarrow> session \<Rightarrow> (exc + response) \<times> session" where
  "delete_newsletter_try accepts newsletter_id s0 =
     and_then (newsletter_get_or_404 newsletter_id s0) (\<lambda>obj s.
     and_then (session_commit accepts (session_delete_newsletter obj s)) (\<lambda>u s.
       (Inr (Response 200
               (message (''Newsletter subscription '' @ str_nat newsletter_id
                          @ '' deleted successfully''))), s)))"

definition delete_newsletter :: "(db \<Rightarrow> bool) \<Rightarrow> nat \<Rightarrow> db \<Rightarrow> (exc + response) \<times> db" where
  "delete_newsletter accepts newsletter_id d =
     except_Exception ''Failed to delete newsletter subscription: ''
       (delete_newsletter_try accepts newsletter_id (begin_session d))"

definition update_newsletter_try ::
  "(db \<Rightarrow> bool) \<Rightarrow> (newsletter \<Rightarrow> newsletter) \<Rightarrow> (datetime \<Rightarrow> string) \<Rightarrow> nat \<Rightarrow> json \<Rightarrow> session
     \<Rightarrow> (exc + response) \<times> session" where
  "update_newsletter_try accepts refresh isoformat newsletter_id data s0 =
     and_then (newsletter_get_or_404 newsletter_id s0) (\<lambda>obj s.
     and_then (assign_if ''name'' data (\<lambda>v r. r\<lparr>n_name := v\<rparr>) put_newsletter obj s) (\<lambda>obj s.
     and_then (assign_if ''email'' data (\<lambda>v r. r\<lparr>n_email := v\<rparr>) put_newsletter obj s) (\<lambda>obj s.
     and_then (session_commit accepts s) (\<lambda>u s.
       (Inr (Response 200 (newsletter_json isoformat (refresh obj))), s)))))"

definition update_newsletter ::
  "(db \<Rightarrow> bool) \<Rightarrow> (newsletter \<Rightarrow> newsletter) \<Rightarrow> (datetime \<Rightarrow> string) \<Rightarrow> nat \<Rightarrow> json \<Rightarrow> db
     \<Rightarrow> (exc + response) \<times> db" where
  "update_newsletter accepts refresh isoformat newsletter_id data d =
     (if \<not> truthy data then (abort 400 (Text ''No data provided''), d)
      else except_Exception ''Failed to update newsletter subscription: ''
             (update_newsletter_try accepts refresh isoformat newsletter_id data (begin_session d)))"

section \<open>From an outcome to the HTTP response\<close>

text \<open>
  \<^verbatim>\<open>handle_error\<close> is registered for the codes 400, 401, 403, 404 and 500, the only ones
  the application aborts with; \<open>http_name\<close> is the standard reason phrase \<^verbatim>\<open>e.name\<close>.
  An exception that is not an \<^verbatim>\<open>HTTPException\<close> and leaves a handler is turned by Flask
  into its internal server error, which the same handler renders. For a 500 the handler
  also prints the traceback; that output is no part of the response.
\<close>

definition http_name :: "nat \<Rightarrow> string" where
  "http_name code =
     (if code = 400 then ''Bad Request''
      else if code = 401 then ''Unauthorized''
      else if code = 403 then ''Forbidden''
      else if code = 404 then ''Not Found''
      else if code = 500 then ''Internal Server Error''
      else ''Unknown Error'')"

definition handle_error :: "nat \<Rightarrow> descr \<Rightarrow> response" where
  "handle_error code description = Response code (Error (http_name code) description)"

fun respond :: "exc + response \<Rightarrow> response" where
  "respond (Inr resp) = resp"
| "respond (Inl (HTTPException code description)) = handle_error code description"
| "respond (Inl e) = handle_error 500 DefaultDescription"

section \<open>Login\<close>

text \<open>
  \<^verbatim>\<open>pyjwt.encode(payload, key, algorithm="HS256")\<close> is the parameter \<open>jwt_encode\<close>.
  \<open>getenv_value\<close> is \<^verbatim>\<open>os.getenv(var)\<close> as a Python value: \<^verbatim>\<open>None\<close> when the variable
  is unset. \<^verbatim>\<open>a != b or c != d\<close> evaluates \<open>c\<close> only when the first test is false. The
  right-hand sides are strings or \<^verbatim>\<open>None\<close>, which Python finds equal to a JSON value only
  when that value is the same string, or \<^verbatim>\<open>None\<close>: equality of the two as \<open>json\<close>.
\<close>

definition getenv_value :: "(string \<Rightarrow> string option) \<Rightarrow> string \<Rightarrow> json" where
  "getenv_value environ var = (case environ var of None \<Rightarrow> JNull | Some v \<Rightarrow> JStr v)"

definition login ::
  "(string \<Rightarrow> string option) \<Rightarrow> string \<Rightarrow> ((string \<times> json) list \<Rightarrow> string \<Rightarrow> string)
     \<Rightarrow> (datetime \<Rightarrow> string) \<Rightarrow> datetime \<Rightarrow> json \<Rightarrow> exc + response" where
  "login environ SECRET_KEY jwt_encode isoformat utcnow data =
     (if \<not> truthy data then abort 400 (Text ''Username and password are required'')
      else (case any_missing [''username'', ''password''] data of
              Inl e \<Rightarrow> Inl e
            | Inr True \<Rightarrow> abort 400 (Text ''Username and password are required'')
            | Inr False \<Rightarrow>
                (case py_getitem data ''username'' of
                   Inl e \<Rightarrow> Inl e
                 | Inr username \<Rightarrow>
                     if username \<noteq> getenv_value environ ''ADMIN_USERNAME''
                     then abort 401 (Text ''Invalid credentials'')
                     else (case py_getitem data ''password'' of
                             Inl e \<Rightarrow> Inl e
                           | Inr password \<Rightarrow>
                               if password \<noteq> getenv_value environ ''ADMIN_PASSWORD''
                               then abort 401 (Text ''Invalid credentials'')
                               else Inr (Response 200 (Json (JObj
                                      [(''token'', JStr (jwt_encode
                                          [(''admin'', JBool True), (''username'', username),
                                           (''exp'', JInt (utcnow + 3600))] SECRET_KEY)),
                                       (''expires_at'', JStr (isoformat (utcnow + 3600))),
                                       (''dashboard_url'', JStr ''/admin'')])))))))"

section \<open>Notions of the specification\<close>

text \<open>
  The definitions of this section are not code of the program: they say, in the
  specification's words, what the theorems below compare the program with.
\<close>

text \<open>A message names a field when the field's name occurs in it, in whatever case.\<close>

definition mentions :: "string \<Rightarrow> string \<Rightarrow> bool" where
  "mentions field msg = contains_str (lower field) (lower msg)"

text \<open>
  The number a JSON value stands for in a comparison, if it is one, and the rating
  invariant read as a range: a number between 1 and 5.
\<close>

fun num_value :: "json \<Rightarrow> rat option" where
  "num_value (JBool b) = Some (if b then 1 else 0)"
| "num_value (JInt n) = Some (of_int n)"
| "num_value (JFloat q) = Some q"
| "num_value other = None"

definition between_1_and_5 :: "json \<Rightarrow> bool" where
  "between_1_and_5 v = (case num_value v of None \<Rightarrow> False | Some q \<Rightarrow> 1 \<le> q \<and> q \<le> 5)"

definition ratings_between_1_and_5 :: "db \<Rightarrow> bool" where
  "ratings_between_1_and_5 d = list_all (\<lambda>r. between_1_and_5 (r_rating r)) (reviews d)"

text \<open>
  A partial update in the specification's words: a mutable field takes the supplied value
  when its key is among the supplied ones and keeps its value otherwise; \<open>id\<close> and
  \<open>timestamp\<close> are not among the mutable fields.
\<close>

definition supplied :: "(string \<times> json) list \<Rightarrow> string \<Rightarrow> json \<Rightarrow> json" where
  "supplied kvs k current = (case map_of kvs k of None \<Rightarrow> current | Some v \<Rightarrow> v)"

definition inquiry_mutable :: "string list" where
  "inquiry_mutable =
     [''name'', ''email'', ''phone'', ''company'', ''country'', ''job_title'', ''job_details'']"

definition review_mutable :: "string list" where
  "review_mutable = [''name'', ''company'', ''review'', ''rating'']"

definition newsletter_mutable :: "string list" where
  "newsletter_mutable = [''name'', ''email'']"

definition patch_inquiry :: "(string \<times> json) list \<Rightarrow> inquiry \<Rightarrow> inquiry" where
  "patch_inquiry kvs old =
     \<lparr>i_id = i_id old,
      i_name = supplied kvs ''name'' (i_name old),
      i_email = supplied kvs ''email'' (i_email old),
      i_phone = supplied kvs ''phone'' (i_phone old),
      i_company = supplied kvs ''company'' (i_company old),
      i_country = supplied kvs ''country'' (i_country old),
      i_job_title = supplied kvs ''job_title'' (i_job_title old),
      i_job_details = supplied kvs ''job_details'' (i_job_details old),
      i_timestamp = i_timestamp old\<rparr>"

definition patch_review :: "(string \<times> json) list \<Rightarrow> review \<Rightarrow> review" where
  "patch_review kvs old =
     \<lparr>r_id = r_id old,
      r_name = supplied kvs ''name'' (r_name old),
      r_company = supplied kvs ''company'' (r_company old),
      r_review = supplied kvs ''review'' (r_review old),
      r_rating = supplied kvs ''rating'' (r_rating old),
      r_timestamp = r_timestamp old\<rparr>"

definition patch_newsletter :: "(string \<times> json) list \<Rightarrow> newsletter \<Rightarrow> newsletter" where
  "patch_newsletter kvs old =
     \<lparr>n_id = n_id old,
      n_name = supplied kvs ''name'' (n_name old),
      n_email = supplied kvs ''email'' (n_email old),
      n_timestamp = n_timestamp old\<rparr>"

text \<open>The value a response body gives for a key, when the body is a JSON object.\<close>

fun json_field :: "body \<Rightarrow> string \<Rightarrow> json option" where
  "json_field (Json (JObj kvs)) k = map_of kvs k"
| "json_field other k = None"

text \<open>The store with the row of one id replaced, every other row as it was.\<close>

definition replace_inquiry :: "inquiry \<Rightarrow> db \<Rightarrow> db" where
  "replace_inquiry new d =
     d\<lparr>inquiries := map (\<lambda>r. if i_id r = i_id new then new else r) (inquiries d)\<rparr>"

definition replace_review :: "review \<Rightarrow> db \<Rightarrow> db" where
  "replace_review new d =
     d\<lparr>reviews := map (\<lambda>r. if r_id r = r_id new then new else r) (reviews d)\<rparr>"

definition replace_newsletter :: "newsletter \<Rightarrow> db \<Rightarrow> db" where
  "replace_newsletter new d =
     d\<lparr>newsletters := map (\<lambda>r. if n_id r = n_id new then new else r) (newsletters d)\<rparr>"

text \<open>
  A signed token in the abstract: its payload and the key its signature was made with.
  It is correctly signed for a key when that is the key, and unexpired at a time when its
  \<open>exp\<close> claim is a later time.
\<close>

record jwt =
  claims :: "(string \<times> json) list"
  signed_with :: string

definition correctly_signed :: "string \<Rightarrow> jwt \<Rightarrow> bool" where
  "correctly_signed key t = (signed_with t = key)"

fun later_than :: "datetime \<Rightarrow> json \<Rightarrow> bool" where
  "later_than now (JInt e) = (now < e)"
| "later_than now other = False"

definition unexpired :: "datetime \<Rightarrow> jwt \<Rightarrow> bool" where
  "unexpired now t = later_than now (dict_get (claims t) ''exp'')"

text \<open>
  The payload a decoder returns with its \<open>username\<close> claim set to a given value, or
  removed.
\<close>

fun with_username :: "json \<Rightarrow> decoded \<Rightarrow> decoded" where
  "with_username u (Claims payload) = Claims ((''username'', u) # payload)"
| "with_username u other = other"

fun without_username :: "decoded \<Rightarrow> decoded" where
  "without_username (Claims payload) = Claims (filter (\<lambda>kv. fst kv \<noteq> ''username'') payload)"
| "without_username other = other"

section \<open>Proof devices\<close>

text \<open>
  Two predicates the proofs about the rating invariant use: a session whose working view
  and committed rows both satisfy it, and the result of a step that may raise, whose
  session satisfies it and whose value, if there is one, satisfies \<open>Q\<close>.
\<close>

definition ratings_ok_session :: "session \<Rightarrow> bool" where
  "ratings_ok_session s =
     (ratings_between_1_and_5 (working s) \<and> ratings_between_1_and_5 (committed s))"

definition ok_result :: "('a \<Rightarrow> bool) \<Rightarrow> (exc + 'a) \<times> session \<Rightarrow> bool" where
  "ok_result Q r =
     (ratings_ok_session (snd r) \<and> (case fst r of Inl e \<Rightarrow> True | Inr a \<Rightarrow> Q a))"

section \<open>Concrete inputs\<close>

text \<open>The inputs the closed theorems below are evaluated at.\<close>

definition empty_db :: db where
  "empty_db = \<lparr>inquiries = [], reviews = [], newsletters = []\<rparr>"

definition ada_review :: review where
  "ada_review = Review (JStr ''Ada'') (JStr ''Acme'') (JStr ''Great'') (JInt 5) 1 1000"

definition ada_inquiry :: inquiry where
  "ada_inquiry = Inquiry (JStr ''Ada'') (JStr ''ada@acme.example'') (JStr ''555'') JNull JNull
                   JNull JNull 1 1000"

definition ada_newsletter :: newsletter where
  "ada_newsletter = Newsletter (JStr ''Ada'') (JStr ''ada@acme.example'') 1 1000"

definition ada_db :: db where
  "ada_db = \<lparr>inquiries = [ada_inquiry], reviews = [ada_review],
             newsletters = [ada_newsletter]\<rparr>"

text \<open>
  A decoder for the key \<open>s3cret\<close>. It knows five tokens: \<open>good\<close> (an admin with a
  username), \<open>anonymous\<close> (an admin with no username claim), \<open>text\<close> (the \<open>admin\<close> claim
  is the string \<open>false\<close>), \<open>plain\<close> (the \<open>admin\<close> claim is the boolean false) and
  \<open>old\<close> (expired). Every other token, and every other key, is invalid.
\<close>

definition test_decode :: "string \<Rightarrow> string \<Rightarrow> decoded" where
  "test_decode token key =
     (if key \<noteq> ''s3cret'' then Invalid ''Signature verification failed''
      else if token = ''good''
        then Claims [(''admin'', JBool True), (''username'', JStr ''root''), (''exp'', JInt 5000)]
      else if token = ''anonymous''
        then Claims [(''admin'', JBool True), (''exp'', JInt 5000)]
      else if token = ''text''
        then Claims [(''admin'', JStr ''false''), (''username'', JStr ''root''), (''exp'', JInt 5000)]
      else if token = ''plain''
        then Claims [(''admin'', JBool False), (''username'', JStr ''root''), (''exp'', JInt 5000)]
      else if token = ''old'' then Expired
      else Invalid ''Not enough segments'')"

text \<open>
  A stand-in for \<^verbatim>\<open>datetime.isoformat\<close> in the closed theorems: the seconds in decimal.
\<close>

definition test_isoformat :: "datetime \<Rightarrow> string" where
  "test_isoformat t = str_nat (nat t)"

text \<open>
  An engine for the closed theorems. It returns an integer handed to a text column as its
  decimal text, a boolean handed to an integer column as 0 or 1, and every other value as
  it was handed; ids and timestamps come back as stored.
\<close>

fun text_column :: "json \<Rightarrow> json" where
  "text_column (JInt n) =
     JStr (if n < 0 then ''-'' @ str_nat (nat (- n)) else str_nat (nat n))"
| "text_column other = other"

fun integer_column :: "json \<Rightarrow> json" where
  "integer_column (JBool b) = JInt (if b then 1 else 0)"
| "integer_column other = other"

definition test_refresh_inquiry :: "inquiry \<Rightarrow> inquiry" where
  "test_refresh_inquiry r =
     r\<lparr>i_name := text_column (i_name r), i_email := text_column (i_email r),
       i_phone := text_column (i_phone r), i_company := text_column (i_company r),
       i_country := text_column (i_country r), i_job_title := text_column (i_job_title r),
       i_job_details := text_column (i_job_details r)\<rparr>"

definition test_refresh_review :: "review \<Rightarrow> review" where
  "test_refresh_review r =
     r\<lparr>r_name := text_column (r_name r), r_company := text_column (r_company r),
       r_review := text_column (r_review r), r_rating := integer_column (r_rating r)\<rparr>"

definition test_refresh_newsletter :: "newsletter \<Rightarrow> newsletter" where
  "test_refresh_newsletter r =
     r\<lparr>n_name := text_column (n_name r), n_email := text_column (n_email r)\<rparr>"

text \<open>
  Signed tokens for the closed theorem about the decoder. \<open>wire\<close> says which token a
  header string carries: \<open>audience\<close> is a token signed with the key \<open>s3cret\<close> whose
  payload has \<open>admin\<close> true, an expiry at 5000 and an \<open>aud\<close> claim. \<open>library_decode\<close>
  makes, of the checks of \<^verbatim>\<open>pyjwt.decode(token, key, algorithms=["HS256"])\<close>, those on
  the signature, on \<open>exp\<close> and on \<open>aud\<close>: a token with an \<open>aud\<close> claim is refused when
  the caller names no audience, as the guard does not.
\<close>

definition wire :: "string \<Rightarrow> jwt option" where
  "wire token =
     (if token = ''audience''
      then Some \<lparr>claims = [(''admin'', JBool True), (''username'', JStr ''root''),
                          (''exp'', JInt 5000), (''aud'', JStr ''reports'')],
                signed_with = ''s3cret''\<rparr>
      else None)"

definition library_decode :: "datetime \<Rightarrow> string \<Rightarrow> string \<Rightarrow> decoded" where
  "library_decode now token key =
     (case wire token of
        None \<Rightarrow> Invalid ''Not enough segments''
      | Some t \<Rightarrow>
          if signed_with t \<noteq> key then Invalid ''Signature verification failed''
          else if \<not> unexpired now t then Expired
          else if truthy (dict_get (claims t) ''aud'') then Invalid ''Invalid audience''
          else Claims (claims t))"

definition test_environ :: "string \<Rightarrow> string option" where
  "test_environ =
     [''SECRET_KEY'' \<mapsto> ''s3cret'', ''DATABASE_URL'' \<mapsto> ''sqlite:///app.db'',
      ''ADMIN_PASSWORD'' \<mapsto> ''hunter2'']"

text \<open>
  The environment above with an admin username, and an encoder that signs with the key
  \<open>s3cret\<close> only.
\<close>

definition test_admin_environ :: "string \<Rightarrow> string option" where
  "test_admin_environ = test_environ(''ADMIN_USERNAME'' \<mapsto> ''root'')"

definition test_encode :: "(string \<times> json) list \<Rightarrow> string \<Rightarrow> string" where
  "test_encode payload key = (if key = ''s3cret'' then ''good'' else ''junk'')"

section \<open>Unfolding the handlers\<close>

lemmas lookup_defs =
  inquiry_get_or_404_def review_get_or_404_def newsletter_get_or_404_def
  find_inquiry_def find_review_def find_newsletter_def

lemmas session_defs =
  except_Exception_def begin_session_def session_rollback_def session_commit_def abort_def

lemmas delete_defs =
  delete_inquiry_def delete_inquiry_try_def delete_review_def delete_review_try_def
  delete_newsletter_def delete_newsletter_try_def
  session_delete_inquiry_def session_delete_review_def session_delete_newsletter_def

lemmas update_defs =
  update_inquiry_def update_inquiry_try_def update_review_def update_review_try_def
  update_newsletter_def update_newsletter_try_def assign_if_def assign_rating_def
  put_inquiry_def put_review_def put_newsletter_def rating_in_range_def

lemmas create_defs =
  create_inquiry_def create_inquiry_try_def submit_review_def submit_review_try_def
  create_newsletter_def create_newsletter_try_def rating_in_range_def
  session_add_inquiry_def session_add_review_def session_add_newsletter_def
  Inquiry_def Review_def Newsletter_def fresh_id_def message_def

lemmas fixture_defs =
  empty_db_def ada_db_def ada_inquiry_def ada_review_def ada_newsletter_def
  Inquiry_def Review_def Newsletter_def

section \<open>The guard, step by step\<close>

lemma split_examples:
  "split ''Bearer'' = [''Bearer'']"
  "split ''Basic good'' = [''Basic'', ''good'']"
  "split ''Bearer good'' = [''Bearer'', ''good'']"
  "split ''Bearer old'' = [''Bearer'', ''old'']"
  "split ''Bearer junk'' = [''Bearer'', ''junk'']"
  "split ''Bearer plain'' = [''Bearer'', ''plain'']"
  "split ''bearer good'' = [''bearer'', ''good'']"
  "split ''Bearer text'' = [''Bearer'', ''text'']"
  "split ''BEARER anonymous'' = [''BEARER'', ''anonymous'']"
  "split ''Bearer audience'' = [''Bearer'', ''audience'']"
  by code_simp+

lemma lower_examples:
  "lower ''Bearer'' = ''bearer''"
  "lower ''bearer'' = ''bearer''"
  "lower ''BEARER'' = ''bearer''"
  "lower ''Basic'' = ''basic''"
  by code_simp+

lemma admin_required_try_format:
  "length (split h) \<noteq> 2 \<Longrightarrow> admin_required_try key dec h = Inl ValueError"
  by (auto simp: admin_required_try_def split: list.splits)

lemma admin_required_try_two:
  "split h = [scheme, token] \<Longrightarrow>
   admin_required_try key dec h =
     (if lower scheme \<noteq> ''bearer'' then Inl (HTTPException 401 (Text ''Invalid authorization scheme''))
      else (case dec token key of
              Expired \<Rightarrow> Inl ExpiredSignatureError
            | Invalid msg \<Rightarrow> Inl (InvalidTokenError msg)
            | Claims payload \<Rightarrow>
                if \<not> truthy (dict_get payload ''admin'')
                then Inl (HTTPException 403 (Text ''Admin privileges required''))
                else Inr ()))"
  by (simp add: admin_required_try_def abort_def split: decoded.splits)

lemma map_of_drop_other_key:
  "k \<noteq> k' \<Longrightarrow> map_of (filter (\<lambda>kv. fst kv \<noteq> k') kvs) k = map_of kvs k"
  by (induction kvs) auto

lemma admin_claim_with_username:
  "dict_get ((''username'', u) # payload) ''admin'' = dict_get payload ''admin''"
  by (simp add: dict_get_def)

lemma admin_claim_without_username:
  "dict_get (filter (\<lambda>kv. fst kv \<noteq> ''username'') payload) ''admin'' = dict_get payload ''admin''"
  by (simp add: dict_get_def map_of_drop_other_key)

lemma admin_required_try_with_username:
  "admin_required_try key (\<lambda>t k. with_username u (dec t k)) h = admin_required_try key dec h"
  by (cases "split h" rule: list.exhaust)
     (auto simp: admin_required_try_def admin_claim_with_username
           split: list.splits decoded.splits)

lemma admin_required_try_without_username:
  "admin_required_try key (\<lambda>t k. without_username (dec t k)) h = admin_required_try key dec h"
  by (cases "split h" rule: list.exhaust)
     (auto simp: admin_required_try_def admin_claim_without_username
           split: list.splits decoded.splits)

section \<open>Updates and deletes of a missing id\<close>

text \<open>
  Claim C1 says that an update or a delete of an id with no record is reported as HTTP 404.
  The program looks the record up with \<^verbatim>\<open>get_or_404\<close> inside the \<^verbatim>\<open>try\<close> block, so the
  404 it raises is caught by \<^verbatim>\<open>except Exception\<close> and leaves the handler as a 500 whose
  description quotes the 404. The theorem evaluates the six handlers on a store with no
  rows, one of them behind the admin guard with a valid admin token, and a delete repeated
  on the store the first delete left: the first answers 200, the second 500.
\<close>

theorem missing_id_reports_500:
  "fst (delete_inquiry accepts 7 empty_db)
     = Inl (HTTPException 500 (Formatted ''Failed to delete inquiry: ''
              (HTTPException 404 DefaultDescription)))
   \<and> fst (delete_review accepts 7 empty_db)
     = Inl (HTTPException 500 (Formatted ''Failed to delete review: ''
              (HTTPException 404 DefaultDescription)))
   \<and> fst (delete_newsletter accepts 7 empty_db)
     = Inl (HTTPException 500 (Formatted ''Failed to delete newsletter subscription: ''
              (HTTPException 404 DefaultDescription)))
   \<and> fst (update_inquiry accepts refresh_i isoformat 7 (JObj [(''name'', JStr ''Ada'')]) empty_db)
     = Inl (HTTPException 500 (Formatted ''Failed to update inquiry: ''
              (HTTPException 404 DefaultDescription)))
   \<and> fst (update_review accepts refresh_r isoformat 7 (JObj [(''rating'', JInt 5)]) empty_db)
     = Inl (HTTPException 500 (Formatted ''Failed to update review: ''
              (HTTPException 404 DefaultDescription)))
   \<and> fst (update_newsletter accepts refresh_n isoformat 7 (JObj [(''name'', JStr ''Ada'')]) empty_db)
     = Inl (HTTPException 500 (Formatted ''Failed to update newsletter subscription: ''
              (HTTPException 404 DefaultDescription)))
   \<and> status (respond (fst (admin_required ''s3cret'' test_decode (delete_inquiry accepts 7)
                              (Some ''Bearer good'') empty_db))) = 500
   \<and> status (respond (fst (delete_review (\<lambda>d. True) 1 ada_db))) = 200
   \<and> status (respond (fst (delete_review (\<lambda>d. True) 1
                              (snd (delete_review (\<lambda>d. True) 1 ada_db))))) = 500"
  by (simp add: delete_defs update_defs lookup_defs session_defs fixture_defs
        admin_required_def admin_required_try_def
        split_examples lower_examples test_decode_def dict_get_def handle_error_def)

section \<open>A review update with a rating out of range\<close>

text \<open>
  Claim C2 says that a review update whose rating is outside 1..5 fails with HTTP 400 and
  changes no field of the record. The program raises the 400 inside the \<^verbatim>\<open>try\<close> block,
  after it has assigned the fields before the rating; \<^verbatim>\<open>except Exception\<close> catches it,
  rolls back and aborts with 500. At rating 6 the stored record is as before (the name
  sent with it is not applied), the response is a 500 that quotes the 400, and the same
  rating sent to \<^verbatim>\<open>submit_review\<close>, whose test stands before the \<^verbatim>\<open>try\<close>, is a 400.
\<close>

theorem out_of_range_update_reports_500:
  "update_review accepts refresh_r isoformat 1 (JObj [(''name'', JStr ''Eve''), (''rating'', JInt 6)]) ada_db
     = (Inl (HTTPException 500 (Formatted ''Failed to update review: ''
               (HTTPException 400 (Text ''Rating must be between 1 and 5'')))), ada_db)
   \<and> status (respond (fst (update_review accepts refresh_r isoformat 1
                 (JObj [(''name'', JStr ''Eve''), (''rating'', JInt 6)]) ada_db))) = 500
   \<and> fst (submit_review accepts utcnow
             (JObj [(''name'', JStr ''Eve''), (''company'', JStr ''Acme''),
                    (''review'', JStr ''Fine''), (''rating'', JInt 6)]) ada_db)
     = Inl (HTTPException 400 (Text ''Rating must be between 1 and 5''))"
  by (simp add: update_defs create_defs lookup_defs session_defs fixture_defs handle_error_def)

section \<open>Startup without an admin username\<close>

text \<open>
  Claim C5 says that the process does not start when the signing secret, the connection
  string, the admin username or the admin password is absent. The list the program checks
  holds \<open>SECRET_KEY\<close>, \<open>DATABASE_URL\<close> and \<open>ADMIN_PASSWORD\<close> only. In an environment with
  these three and no \<open>ADMIN_USERNAME\<close> the check passes, while the same environment without
  the password is refused; \<^verbatim>\<open>login\<close>, which reads \<open>ADMIN_USERNAME\<close>, then refuses every
  username that is a string and takes the JSON \<open>null\<close> with the right password.
\<close>

theorem startup_without_admin_username:
  "test_environ ''ADMIN_USERNAME'' = None
   \<and> startup test_environ = Inr ()
   \<and> startup (test_environ(''ADMIN_PASSWORD'' := None))
       = Inl (RuntimeError ''Missing required environment variables: ADMIN_PASSWORD'')
   \<and> login test_environ ''s3cret'' jwt_encode isoformat utcnow
        (JObj [(''username'', JStr ''admin''), (''password'', JStr ''hunter2'')])
       = Inl (HTTPException 401 (Text ''Invalid credentials''))
   \<and> status (respond (login test_environ ''s3cret'' jwt_encode isoformat utcnow
        (JObj [(''username'', JNull), (''password'', JStr ''hunter2'')]))) = 200"
  by (simp add: test_environ_def startup_def missing_vars_def required_vars_def
        getenv_falsy_def login_def getenv_value_def abort_def)

section \<open>A rating that is no number\<close>

text \<open>
  Claim C10: some review submission with all four required keys and a rating that cannot be
  compared with an integer raises in the range test, outside the handler's \<^verbatim>\<open>try\<close>
  block, so the request ends as the framework's generic 500 and not as a 400, and no
  record is created. The submission with the rating \<open>"five"\<close> is one: no key is missing,
  the handler raises \<^verbatim>\<open>TypeError\<close> and leaves every store \<open>d\<close> as it was, and the
  framework answers that exception with status 500 and its default description.
\<close>

theorem string_rating_is_unhandled_500:
  "any_missing [''name'', ''company'', ''review'', ''rating'']
      (JObj [(''name'', JStr ''Ada''), (''company'', JStr ''Acme''),
             (''review'', JStr ''Great''), (''rating'', JStr ''five'')]) = Inr False
   \<and> submit_review accepts utcnow
        (JObj [(''name'', JStr ''Ada''), (''company'', JStr ''Acme''),
               (''review'', JStr ''Great''), (''rating'', JStr ''five'')]) d
      = (Inl TypeError, d)
   \<and> respond (Inl TypeError)
      = Response 500 (Error ''Internal Server Error'' DefaultDescription)"
  by (simp add: create_defs session_defs handle_error_def http_name_def)

section \<open>The order of the guard's checks\<close>

text \<open>
  Claim C3, as amended. For every request to a guarded route the guard decides before the
  wrapped handler runs, and its checks come in this order, each with its own error:
  a header that is absent or empty (401, "Authorization header is missing"); a header that
  does not split into exactly two pieces at whitespace (401, "Invalid authorization header
  format"); a scheme that is not \<open>bearer\<close> in some case (401, "Invalid authorization
  scheme"); a token the decoder finds expired (401, "Token has expired") or otherwise
  invalid (401, "Invalid token: ..."); a decoded payload whose \<open>admin\<close> claim is missing
  or has no truth value in Python (403, "Admin privileges required"). A rejection leaves
  the state as it was and does not depend on the handler; the handler runs, on the same
  state, exactly when every check passes. The amendment is in the last check: the guard
  asks for a truthy \<open>admin\<close> claim, not for one that is the boolean true.
\<close>

theorem admin_required_checks_in_order:
  "admin_required key dec f None st
     = (Inl (HTTPException 401 (Text ''Authorization header is missing'')), st)
   \<and> admin_required key dec f (Some []) st
     = (Inl (HTTPException 401 (Text ''Authorization header is missing'')), st)
   \<and> (h \<noteq> [] \<and> length (split h) \<noteq> 2 \<longrightarrow>
        admin_required key dec f (Some h) st
          = (Inl (HTTPException 401 (Text ''Invalid authorization header format'')), st))
   \<and> (h \<noteq> [] \<and> split h = [scheme, token] \<and> lower scheme \<noteq> ''bearer'' \<longrightarrow>
        admin_required key dec f (Some h) st
          = (Inl (HTTPException 401 (Text ''Invalid authorization scheme'')), st))
   \<and> (h \<noteq> [] \<and> split h = [scheme, token] \<and> lower scheme = ''bearer''
        \<and> dec token key = Expired \<longrightarrow>
        admin_required key dec f (Some h) st
          = (Inl (HTTPException 401 (Text ''Token has expired'')), st))
   \<and> (h \<noteq> [] \<and> split h = [scheme, token] \<and> lower scheme = ''bearer''
        \<and> dec token key = Invalid msg \<longrightarrow>
        admin_required key dec f (Some h) st
          = (Inl (HTTPException 401 (Formatted ''Invalid token: '' (InvalidTokenError msg))), st))
   \<and> (h \<noteq> [] \<and> split h = [scheme, token] \<and> lower scheme = ''bearer''
        \<and> dec token key = Claims payload \<and> \<not> truthy (dict_get payload ''admin'') \<longrightarrow>
        admin_required key dec f (Some h) st
          = (Inl (HTTPException 403 (Text ''Admin privileges required'')), st))
   \<and> (h \<noteq> [] \<and> split h = [scheme, token] \<and> lower scheme = ''bearer''
        \<and> dec token key = Claims payload \<and> truthy (dict_get payload ''admin'') \<longrightarrow>
        admin_required key dec f (Some h) st = f st)"
  by (simp add: admin_required_def abort_def admin_required_try_format admin_required_try_two)

text \<open>The theorem at six requests, one for each check after the first and one that passes.\<close>

theorem admin_required_checks_in_order_witness:
  "admin_required ''s3cret'' test_decode (delete_review (\<lambda>d. True) 1) (Some ''Bearer'') ada_db
     = (Inl (HTTPException 401 (Text ''Invalid authorization header format'')), ada_db)
   \<and> admin_required ''s3cret'' test_decode (delete_review (\<lambda>d. True) 1) (Some ''Basic good'') ada_db
     = (Inl (HTTPException 401 (Text ''Invalid authorization scheme'')), ada_db)
   \<and> admin_required ''s3cret'' test_decode (delete_review (\<lambda>d. True) 1) (Some ''Bearer old'') ada_db
     = (Inl (HTTPException 401 (Text ''Token has expired'')), ada_db)
   \<and> admin_required ''s3cret'' test_decode (delete_review (\<lambda>d. True) 1) (Some ''Bearer junk'') ada_db
     = (Inl (HTTPException 401 (Formatted ''Invalid token: ''
              (InvalidTokenError ''Not enough segments''))), ada_db)
   \<and> admin_required ''s3cret'' test_decode (delete_review (\<lambda>d. True) 1) (Some ''Bearer plain'') ada_db
     = (Inl (HTTPException 403 (Text ''Admin privileges required'')), ada_db)
   \<and> admin_required ''s3cret'' test_decode (delete_review (\<lambda>d. True) 1) (Some ''bearer good'') ada_db
     = delete_review (\<lambda>d. True) 1 ada_db"
proof -
  note order = admin_required_checks_in_order
    [where key = "''s3cret''" and dec = test_decode and f = "delete_review (\<lambda>d. True) 1"
       and st = ada_db]
  have format: "admin_required ''s3cret'' test_decode (delete_review (\<lambda>d. True) 1)
      (Some ''Bearer'') ada_db
     = (Inl (HTTPException 401 (Text ''Invalid authorization header format'')), ada_db)"
    using order [where h = "''Bearer''"] by (simp add: split_examples)
  have scheme: "admin_required ''s3cret'' test_decode (delete_review (\<lambda>d. True) 1)
      (Some ''Basic good'') ada_db
     = (Inl (HTTPException 401 (Text ''Invalid authorization scheme'')), ada_db)"
    using order [where h = "''Basic good''" and scheme = "''Basic''" and token = "''good''"]
    by (simp add: split_examples lower_examples)
  have expired: "admin_required ''s3cret'' test_decode (delete_review (\<lambda>d. True) 1)
      (Some ''Bearer old'') ada_db
     = (Inl (HTTPException 401 (Text ''Token has expired'')), ada_db)"
    using order [where h = "''Bearer old''" and scheme = "''Bearer''" and token = "''old''"]
    by (simp add: split_examples lower_examples test_decode_def)
  have invalid: "admin_required ''s3cret'' test_decode (delete_review (\<lambda>d. True) 1)
      (Some ''Bearer junk'') ada_db
     = (Inl (HTTPException 401 (Formatted ''Invalid token: ''
              (InvalidTokenError ''Not enough segments''))), ada_db)"
    using order [where h = "''Bearer junk''" and scheme = "''Bearer''" and token = "''junk''"
                   and msg = "''Not enough segments''"]
    by (simp add: split_examples lower_examples test_decode_def)
  have forbidden: "admin_required ''s3cret'' test_decode (delete_review (\<lambda>d. True) 1)
      (Some ''Bearer plain'') ada_db
     = (Inl (HTTPException 403 (Text ''Admin privileges required'')), ada_db)"
    using order [where h = "''Bearer plain''" and scheme = "''Bearer''" and token = "''plain''"
       and payload = "[(''admin'', JBool False), (''username'', JStr ''root''), (''exp'', JInt 5000)]"]
    by (simp add: split_examples lower_examples test_decode_def dict_get_def)
  have runs: "admin_required ''s3cret'' test_decode (delete_review (\<lambda>d. True) 1)
      (Some ''bearer good'') ada_db = delete_review (\<lambda>d. True) 1 ada_db"
    using order [where h = "''bearer good''" and scheme = "''bearer''" and token = "''good''"
       and payload = "[(''admin'', JBool True), (''username'', JStr ''root''), (''exp'', JInt 5000)]"]
    by (simp add: split_examples lower_examples test_decode_def dict_get_def)
  from format scheme expired invalid forbidden runs show ?thesis by blast
qed

text \<open>
  Claim C3 as stated fails: a token whose payload has the \<open>admin\<close> claim \<open>"false"\<close>, a
  string, lacks an admin flag set true, and the guard lets it through: the wrapped delete
  runs and removes the review.
\<close>

theorem admin_claim_text_passes_guard:
  "test_decode ''text'' ''s3cret''
     = Claims [(''admin'', JStr ''false''), (''username'', JStr ''root''), (''exp'', JInt 5000)]
   \<and> admin_required ''s3cret'' test_decode (delete_review (\<lambda>d. True) 1) (Some ''Bearer text'') ada_db
     = (Inr (Response 200 (message ''Review 1 deleted successfully'')),
        ada_db\<lparr>reviews := []\<rparr>)"
  apply (simp add: admin_required_def admin_required_try_def split_examples lower_examples test_decode_def dict_get_def)
  apply (simp add: delete_review_def delete_review_try_def review_get_or_404_def find_review_def
      except_Exception_def begin_session_def session_commit_def session_delete_review_def
      ada_db_def ada_review_def Review_def)
  apply code_simp
  done

section \<open>The guard does not read the username\<close>

text \<open>
  Claim C9, as amended. A token that the decoder accepts under the server's key and whose
  payload has \<open>admin\<close> equal to true passes the guard, and the handler runs, whatever
  else the payload holds. The guard compares the \<open>username\<close> claim with nothing: setting
  that claim to any value in what the decoder returns, or removing it, changes no outcome
  of the guard, on any request. The amendment: what passes is a token the decoder
  accepts, which is less than every token that is correctly signed and unexpired, since
  the decoder makes checks of its own.
\<close>

theorem admin_required_ignores_username:
  "(h \<noteq> [] \<and> split h = [scheme, token] \<and> lower scheme = ''bearer''
      \<and> dec token key = Claims payload \<and> map_of payload ''admin'' = Some (JBool True) \<longrightarrow>
      admin_required key dec f (Some h) st = f st)
   \<and> admin_required key (\<lambda>t k. with_username u (dec t k)) f auth st
       = admin_required key dec f auth st
   \<and> admin_required key (\<lambda>t k. without_username (dec t k)) f auth st
       = admin_required key dec f auth st"
proof (intro conjI impI)
  assume a: "h \<noteq> [] \<and> split h = [scheme, token] \<and> lower scheme = ''bearer''
      \<and> dec token key = Claims payload \<and> map_of payload ''admin'' = Some (JBool True)"
  then have "truthy (dict_get payload ''admin'')"
    by (simp add: dict_get_def)
  with a have "admin_required_try key dec h = Inr ()"
    by (simp add: admin_required_try_two)
  with a show "admin_required key dec f (Some h) st = f st"
    by (simp add: admin_required_def)
next
  show "admin_required key (\<lambda>t k. with_username u (dec t k)) f auth st
       = admin_required key dec f auth st"
    by (simp add: admin_required_def admin_required_try_with_username split: option.splits)
next
  show "admin_required key (\<lambda>t k. without_username (dec t k)) f auth st
       = admin_required key dec f auth st"
    by (simp add: admin_required_def admin_required_try_without_username split: option.splits)
qed

text \<open>The theorem at a token with no username claim.\<close>

theorem admin_required_ignores_username_witness:
  "admin_required ''s3cret'' test_decode (delete_review (\<lambda>d. True) 1) (Some ''BEARER anonymous'') ada_db
     = delete_review (\<lambda>d. True) 1 ada_db
   \<and> map_of [(''admin'', JBool True), (''exp'', JInt 5000)] ''username'' = None"
proof -
  have "admin_required ''s3cret'' test_decode (delete_review (\<lambda>d. True) 1)
          (Some ''BEARER anonymous'') ada_db = delete_review (\<lambda>d. True) 1 ada_db"
    using admin_required_ignores_username
      [where h = "''BEARER anonymous''" and scheme = "''BEARER''" and token = "''anonymous''"
         and dec = test_decode and key = "''s3cret''"
         and payload = "[(''admin'', JBool True), (''exp'', JInt 5000)]"
         and f = "delete_review (\<lambda>d. True) 1" and st = ada_db]
    by (simp add: split_examples lower_examples test_decode_def)
  then show ?thesis by simp
qed

text \<open>
  Claim C9 as stated fails: the token \<open>audience\<close> is signed with the server's key, has an
  expiry after the time of the request and has \<open>admin\<close> equal to true, and the guard
  answers 401 without running the handler, because the decoder, called with no audience,
  refuses a token that carries an \<open>aud\<close> claim.
\<close>

theorem signed_admin_token_with_audience_is_refused:
  "wire ''audience''
     = Some \<lparr>claims = [(''admin'', JBool True), (''username'', JStr ''root''),
                         (''exp'', JInt 5000), (''aud'', JStr ''reports'')],
               signed_with = ''s3cret''\<rparr>
   \<and> correctly_signed ''s3cret''
         \<lparr>claims = [(''admin'', JBool True), (''username'', JStr ''root''),
                    (''exp'', JInt 5000), (''aud'', JStr ''reports'')],
          signed_with = ''s3cret''\<rparr>
   \<and> unexpired 1000
         \<lparr>claims = [(''admin'', JBool True), (''username'', JStr ''root''),
                    (''exp'', JInt 5000), (''aud'', JStr ''reports'')],
          signed_with = ''s3cret''\<rparr>
   \<and> map_of [(''admin'', JBool True), (''username'', JStr ''root''),
              (''exp'', JInt 5000), (''aud'', JStr ''reports'')] ''admin'' = Some (JBool True)
   \<and> admin_required ''s3cret'' (library_decode 1000) (delete_review (\<lambda>d. True) 1)
         (Some ''Bearer audience'') ada_db
       = (Inl (HTTPException 401
                 (Formatted ''Invalid token: '' (InvalidTokenError ''Invalid audience''))),
          ada_db)"
  by (simp add: wire_def correctly_signed_def unexpired_def dict_get_def library_decode_def
        admin_required_def admin_required_try_def split_examples lower_examples)

section \<open>Creating records\<close>

subsection \<open>The body as a dictionary\<close>

lemma contains_str_sublist: "contains_str sub s = sublist sub s"
  by (induction s) (simp_all add: sublist_Cons_right)

lemma join_contains: "f \<in> set xs \<Longrightarrow> sublist f (join sep xs)"
proof (induction sep xs rule: join.induct)
  case (1 sep)
  then show ?case by simp
next
  case (2 sep x)
  then show ?case by simp
next
  case (3 sep x y ys)
  show ?case
  proof (cases "f = x")
    case True
    then show ?thesis by simp
  next
    case False
    with 3 have "sublist f (join sep (y # ys))" by simp
    then have "sublist f ((x @ sep) @ join sep (y # ys))"
      by (meson sublist_append_leftI sublist_order.order_trans)
    then show ?thesis by simp
  qed
qed

lemma missing_fields_obj:
  "missing_fields fs (JObj kvs) = Inr (filter (\<lambda>f. f \<notin> fst ` set kvs) fs)"
  by (induction fs) simp_all

lemma any_missing_obj:
  "any_missing fs (JObj kvs) = Inr (\<not> set fs \<subseteq> fst ` set kvs)"
  by (induction fs) (auto split: bool.splits)

lemma missing_message_names:
  "f \<in> set fs \<Longrightarrow> f \<notin> fst ` set kvs \<Longrightarrow>
   contains_str f (''Missing required fields: '' @ join '', '' (filter (\<lambda>f. f \<notin> fst ` set kvs) fs))"
proof -
  assume "f \<in> set fs" "f \<notin> fst ` set kvs"
  then have "sublist f (join '', '' (filter (\<lambda>f. f \<notin> fst ` set kvs) fs))"
    by (intro join_contains) simp
  then have "sublist f (''Missing required fields: '' @ join '', '' (filter (\<lambda>f. f \<notin> fst ` set kvs) fs))"
    by (meson sublist_append_leftI sublist_order.order_trans)
  then show ?thesis by (simp only: contains_str_sublist)
qed

lemma review_message_mentions:
  "f \<in> set [''name'', ''company'', ''review'', ''rating''] \<Longrightarrow>
   mentions f ''Name, company, review, and rating are required''"
proof -
  have "mentions ''name'' ''Name, company, review, and rating are required''"
       "mentions ''company'' ''Name, company, review, and rating are required''"
       "mentions ''review'' ''Name, company, review, and rating are required''"
       "mentions ''rating'' ''Name, company, review, and rating are required''"
    by code_simp+
  then show "f \<in> set [''name'', ''company'', ''review'', ''rating''] \<Longrightarrow>
   mentions f ''Name, company, review, and rating are required''"
    by auto
qed


lemma py_getitem_present:
  "k \<in> fst ` set kvs \<Longrightarrow> py_getitem (JObj kvs) k = Inr (dict_get kvs k)"
  by (auto simp: dict_get_def map_of_eq_None_iff split: option.splits)

lemma fold_max_upper: "a \<le> fold max ids a \<and> (\<forall>x \<in> set ids. x \<le> fold max ids (a::nat))"
proof (induction ids arbitrary: a)
  case Nil
  then show ?case by simp
next
  case (Cons i ids)
  from Cons [of "max i a"] show ?case by auto
qed

lemma fresh_id_fresh: "fresh_id ids \<notin> set ids"
  using fold_max_upper [of 0 ids] by (auto simp: fresh_id_def)

lemma create_inquiry_obj:
  assumes "set [''name'', ''email''] \<subseteq> fst ` set kvs"
  shows "create_inquiry accepts utcnow (JObj kvs) d =
     (if accepts (d\<lparr>inquiries := inquiries d @
            [Inquiry (dict_get kvs ''name'') (dict_get kvs ''email'') (dict_get kvs ''phone'')
               (dict_get kvs ''company'') (dict_get kvs ''country'') (dict_get kvs ''job_title'')
               (dict_get kvs ''job_details'') (fresh_id (map i_id (inquiries d))) utcnow]\<rparr>)
      then (Inr (Response 201 (message ''Inquiry submitted successfully'')),
            d\<lparr>inquiries := inquiries d @
            [Inquiry (dict_get kvs ''name'') (dict_get kvs ''email'') (dict_get kvs ''phone'')
               (dict_get kvs ''company'') (dict_get kvs ''country'') (dict_get kvs ''job_title'')
               (dict_get kvs ''job_details'') (fresh_id (map i_id (inquiries d))) utcnow]\<rparr>)
      else (Inl (HTTPException 500 (Formatted ''Failed to create inquiry: '' SQLAlchemyError)), d))"
proof -
  from assms have "kvs \<noteq> []" by auto
  with assms show ?thesis
    by (simp add: create_inquiry_def missing_fields_obj create_inquiry_try_def
          except_Exception_def begin_session_def session_commit_def session_rollback_def
          session_add_inquiry_def abort_def)
qed

lemma create_newsletter_obj:
  assumes "set [''name'', ''email''] \<subseteq> fst ` set kvs"
  shows "create_newsletter accepts utcnow (JObj kvs) d =
     (if accepts (d\<lparr>newsletters := newsletters d @
            [Newsletter (dict_get kvs ''name'') (dict_get kvs ''email'')
               (fresh_id (map n_id (newsletters d))) utcnow]\<rparr>)
      then (Inr (Response 201 (message ''Newsletter subscription submitted successfully'')),
            d\<lparr>newsletters := newsletters d @
            [Newsletter (dict_get kvs ''name'') (dict_get kvs ''email'')
               (fresh_id (map n_id (newsletters d))) utcnow]\<rparr>)
      else (Inl (HTTPException 500 (Formatted ''Failed to create newsletter: '' SQLAlchemyError)), d))"
proof -
  from assms have "kvs \<noteq> []" by auto
  with assms show ?thesis
    by (simp add: create_newsletter_def missing_fields_obj create_newsletter_try_def
          except_Exception_def begin_session_def session_commit_def session_rollback_def
          session_add_newsletter_def abort_def)
qed

lemma submit_review_obj:
  assumes "set [''name'', ''company'', ''review'', ''rating''] \<subseteq> fst ` set kvs"
    and "rating_in_range (dict_get kvs ''rating'') = Inr True"
  shows "submit_review accepts utcnow (JObj kvs) d =
     (if accepts (d\<lparr>reviews := reviews d @
            [Review (dict_get kvs ''name'') (dict_get kvs ''company'') (dict_get kvs ''review'')
               (dict_get kvs ''rating'') (fresh_id (map r_id (reviews d))) utcnow]\<rparr>)
      then (Inr (Response 201 (message ''Review submitted successfully'')),
            d\<lparr>reviews := reviews d @
            [Review (dict_get kvs ''name'') (dict_get kvs ''company'') (dict_get kvs ''review'')
               (dict_get kvs ''rating'') (fresh_id (map r_id (reviews d))) utcnow]\<rparr>)
      else (Inl (HTTPException 500 (Formatted ''Failed to submit review: '' SQLAlchemyError)), d))"
proof -
  from assms have "kvs \<noteq> []" by auto
  moreover from assms have "py_getitem (JObj kvs) ''name'' = Inr (dict_get kvs ''name'')"
    "py_getitem (JObj kvs) ''company'' = Inr (dict_get kvs ''company'')"
    "py_getitem (JObj kvs) ''review'' = Inr (dict_get kvs ''review'')"
    "py_getitem (JObj kvs) ''rating'' = Inr (dict_get kvs ''rating'')"
    by (simp_all add: py_getitem_present del: py_getitem.simps)
  ultimately show ?thesis using assms
    by (simp add: submit_review_def any_missing_obj submit_review_try_def
          except_Exception_def begin_session_def session_commit_def session_rollback_def
          session_add_review_def abort_def del: py_getitem.simps)
qed

subsection \<open>Missing required fields\<close>

text \<open>
  Claim C6, as amended. A create request whose body is a non-empty JSON object and lacks a
  required field fails with HTTP 400 and leaves the store as it was, and the message
  names every missing field. For an inquiry and for a newsletter subscription (required:
  \<open>name\<close>, \<open>email\<close>) the message is "Missing required fields: " followed by the missing
  fields, in the order of the list and separated by ", ", so each missing field \<open>f\<close>
  occurs in it. For a review (required: \<open>name\<close>, \<open>company\<close>, \<open>review\<close>, \<open>rating\<close>) the
  message is the fixed text "Name, company, review, and rating are required", which names
  all four, whichever is missing; this holds for the empty object too. An empty object
  sent as an inquiry or a subscription fails with 400 "No data provided".
\<close>

theorem create_names_missing_fields:
  "(kvs \<noteq> [] \<and> f \<in> set [''name'', ''email''] \<and> f \<notin> fst ` set kvs \<longrightarrow>
      create_inquiry accepts utcnow (JObj kvs) d
        = (Inl (HTTPException 400 (Text (''Missing required fields: ''
             @ join '', '' (filter (\<lambda>f. f \<notin> fst ` set kvs) [''name'', ''email''])))), d)
      \<and> create_newsletter accepts utcnow (JObj kvs) d
        = (Inl (HTTPException 400 (Text (''Missing required fields: ''
             @ join '', '' (filter (\<lambda>f. f \<notin> fst ` set kvs) [''name'', ''email''])))), d)
      \<and> contains_str f (''Missing required fields: ''
             @ join '', '' (filter (\<lambda>f. f \<notin> fst ` set kvs) [''name'', ''email''])))
   \<and> (f \<in> set [''name'', ''company'', ''review'', ''rating''] \<and> f \<notin> fst ` set kvs \<longrightarrow>
      submit_review accepts utcnow (JObj kvs) d
        = (Inl (HTTPException 400 (Text ''Name, company, review, and rating are required'')), d)
      \<and> mentions f ''Name, company, review, and rating are required'')
   \<and> create_inquiry accepts utcnow (JObj []) d
        = (Inl (HTTPException 400 (Text ''No data provided'')), d)
   \<and> create_newsletter accepts utcnow (JObj []) d
        = (Inl (HTTPException 400 (Text ''No data provided'')), d)"
proof (intro conjI impI)
  assume a: "kvs \<noteq> [] \<and> f \<in> set [''name'', ''email''] \<and> f \<notin> fst ` set kvs"
  then have missing: "filter (\<lambda>f. f \<notin> fst ` set kvs) [''name'', ''email''] \<noteq> []"
    by auto
  from a missing show "create_inquiry accepts utcnow (JObj kvs) d
        = (Inl (HTTPException 400 (Text (''Missing required fields: ''
             @ join '', '' (filter (\<lambda>f. f \<notin> fst ` set kvs) [''name'', ''email''])))), d)"
    by (simp only: create_inquiry_def missing_fields_obj truthy.simps abort_def
          if_True if_False simp_thms sum.case)
  from a missing show "create_newsletter accepts utcnow (JObj kvs) d
        = (Inl (HTTPException 400 (Text (''Missing required fields: ''
             @ join '', '' (filter (\<lambda>f. f \<notin> fst ` set kvs) [''name'', ''email''])))), d)"
    by (simp only: create_newsletter_def missing_fields_obj truthy.simps abort_def
          if_True if_False simp_thms sum.case)
  from a show "contains_str f (''Missing required fields: ''
             @ join '', '' (filter (\<lambda>f. f \<notin> fst ` set kvs) [''name'', ''email'']))"
    by (intro missing_message_names) simp_all
next
  assume a: "f \<in> set [''name'', ''company'', ''review'', ''rating''] \<and> f \<notin> fst ` set kvs"
  then have "\<not> set [''name'', ''company'', ''review'', ''rating''] \<subseteq> fst ` set kvs"
    by blast
  then show "submit_review accepts utcnow (JObj kvs) d
        = (Inl (HTTPException 400 (Text ''Name, company, review, and rating are required'')), d)"
    by (simp only: submit_review_def any_missing_obj abort_def sum.case bool.case
          if_True if_False simp_thms split: if_splits)
  from a show "mentions f ''Name, company, review, and rating are required''"
    by (intro review_message_mentions) simp
next
  show "create_inquiry accepts utcnow (JObj []) d
        = (Inl (HTTPException 400 (Text ''No data provided'')), d)"
    by (simp add: create_inquiry_def abort_def)
  show "create_newsletter accepts utcnow (JObj []) d
        = (Inl (HTTPException 400 (Text ''No data provided'')), d)"
    by (simp add: create_newsletter_def abort_def)
qed

text \<open>The theorem at three bodies, each lacking \<open>email\<close> or \<open>review\<close>.\<close>

theorem create_names_missing_fields_witness:
  "create_inquiry (\<lambda>d. True) 2000 (JObj [(''phone'', JStr ''555'')]) ada_db
     = (Inl (HTTPException 400 (Text ''Missing required fields: name, email'')), ada_db)
   \<and> contains_str ''email'' ''Missing required fields: name, email''
   \<and> create_newsletter (\<lambda>d. True) 2000 (JObj [(''name'', JStr ''Bob'')]) ada_db
     = (Inl (HTTPException 400 (Text ''Missing required fields: email'')), ada_db)
   \<and> submit_review (\<lambda>d. True) 2000 (JObj [(''name'', JStr ''Bob''), (''rating'', JInt 3)]) ada_db
     = (Inl (HTTPException 400 (Text ''Name, company, review, and rating are required'')), ada_db)
   \<and> mentions ''review'' ''Name, company, review, and rating are required''"
proof -
  have one: "create_inquiry (\<lambda>d. True) 2000 (JObj [(''phone'', JStr ''555'')]) ada_db
     = (Inl (HTTPException 400 (Text ''Missing required fields: name, email'')), ada_db)
   \<and> contains_str ''email'' ''Missing required fields: name, email''"
    using create_names_missing_fields
      [where kvs = "[(''phone'', JStr ''555'')]" and f = "''email''" and accepts = "\<lambda>d. True"
         and utcnow = 2000 and d = ada_db]
    by simp
  have two: "create_newsletter (\<lambda>d. True) 2000 (JObj [(''name'', JStr ''Bob'')]) ada_db
     = (Inl (HTTPException 400 (Text ''Missing required fields: email'')), ada_db)"
    using create_names_missing_fields
      [where kvs = "[(''name'', JStr ''Bob'')]" and f = "''email''" and accepts = "\<lambda>d. True"
         and utcnow = 2000 and d = ada_db]
    by simp
  have three: "submit_review (\<lambda>d. True) 2000 (JObj [(''name'', JStr ''Bob''), (''rating'', JInt 3)]) ada_db
     = (Inl (HTTPException 400 (Text ''Name, company, review, and rating are required'')), ada_db)
   \<and> mentions ''review'' ''Name, company, review, and rating are required''"
    using create_names_missing_fields
      [where kvs = "[(''name'', JStr ''Bob''), (''rating'', JInt 3)]" and f = "''review''"
         and accepts = "\<lambda>d. True" and utcnow = 2000 and d = ada_db]
    by simp
  from one two three show ?thesis by blast
qed

text \<open>
  Claim C6 as stated fails at the empty object: it lacks \<open>name\<close> and \<open>email\<close>, and the
  message of the 400 it gets names neither.
\<close>

theorem empty_body_names_no_field:
  "py_contains ''name'' (JObj []) = Inr False
   \<and> py_contains ''email'' (JObj []) = Inr False
   \<and> create_inquiry (\<lambda>d. True) 2000 (JObj []) ada_db
       = (Inl (HTTPException 400 (Text ''No data provided'')), ada_db)
   \<and> \<not> mentions ''name'' ''No data provided''
   \<and> \<not> mentions ''email'' ''No data provided''"
proof -
  have "\<not> mentions ''name'' ''No data provided''" "\<not> mentions ''email'' ''No data provided''"
    by code_simp+
  then show ?thesis
    by (simp add: create_inquiry_def abort_def)
qed

subsection \<open>A valid submission\<close>

text \<open>
  Claim C7, as amended. A create request whose body is a JSON object with every required
  key (and, for a review, a rating that passes the range test) adds one row to its table
  when the storage engine takes the commit: the row holds the submitted values
  (\<^verbatim>\<open>None\<close> for an optional field that was not sent), an id that no row of the table had,
  assigned by the server, and the server's time \<open>utcnow\<close> as its timestamp. The response
  is 201 with a confirmation message only; it does not return the record. When the engine
  refuses the commit the response is 500 and the store is as before.
\<close>

theorem create_persists_and_confirms:
  "(set [''name'', ''email''] \<subseteq> fst ` set kvs
      \<and> row_i = Inquiry (dict_get kvs ''name'') (dict_get kvs ''email'') (dict_get kvs ''phone'')
               (dict_get kvs ''company'') (dict_get kvs ''country'') (dict_get kvs ''job_title'')
               (dict_get kvs ''job_details'') (fresh_id (map i_id (inquiries d))) utcnow \<longrightarrow>
      create_inquiry accepts utcnow (JObj kvs) d =
        (if accepts (d\<lparr>inquiries := inquiries d @ [row_i]\<rparr>)
         then (Inr (Response 201 (message ''Inquiry submitted successfully'')),
               d\<lparr>inquiries := inquiries d @ [row_i]\<rparr>)
         else (Inl (HTTPException 500
                 (Formatted ''Failed to create inquiry: '' SQLAlchemyError)), d))
      \<and> i_id row_i \<notin> set (map i_id (inquiries d)) \<and> i_timestamp row_i = utcnow)
   \<and> (set [''name'', ''company'', ''review'', ''rating''] \<subseteq> fst ` set kvs
      \<and> rating_in_range (dict_get kvs ''rating'') = Inr True
      \<and> row_r = Review (dict_get kvs ''name'') (dict_get kvs ''company'') (dict_get kvs ''review'')
               (dict_get kvs ''rating'') (fresh_id (map r_id (reviews d))) utcnow \<longrightarrow>
      submit_review accepts utcnow (JObj kvs) d =
        (if accepts (d\<lparr>reviews := reviews d @ [row_r]\<rparr>)
         then (Inr (Response 201 (message ''Review submitted successfully'')),
               d\<lparr>reviews := reviews d @ [row_r]\<rparr>)
         else (Inl (HTTPException 500
                 (Formatted ''Failed to submit review: '' SQLAlchemyError)), d))
      \<and> r_id row_r \<notin> set (map r_id (reviews d)) \<and> r_timestamp row_r = utcnow)
   \<and> (set [''name'', ''email''] \<subseteq> fst ` set kvs
      \<and> row_n = Newsletter (dict_get kvs ''name'') (dict_get kvs ''email'')
               (fresh_id (map n_id (newsletters d))) utcnow \<longrightarrow>
      create_newsletter accepts utcnow (JObj kvs) d =
        (if accepts (d\<lparr>newsletters := newsletters d @ [row_n]\<rparr>)
         then (Inr (Response 201 (message ''Newsletter subscription submitted successfully'')),
               d\<lparr>newsletters := newsletters d @ [row_n]\<rparr>)
         else (Inl (HTTPException 500
                 (Formatted ''Failed to create newsletter: '' SQLAlchemyError)), d))
      \<and> n_id row_n \<notin> set (map n_id (newsletters d)) \<and> n_timestamp row_n = utcnow)"
proof (intro conjI impI)
  assume a: "set [''name'', ''email''] \<subseteq> fst ` set kvs
      \<and> row_i = Inquiry (dict_get kvs ''name'') (dict_get kvs ''email'') (dict_get kvs ''phone'')
               (dict_get kvs ''company'') (dict_get kvs ''country'') (dict_get kvs ''job_title'')
               (dict_get kvs ''job_details'') (fresh_id (map i_id (inquiries d))) utcnow"
  then show "create_inquiry accepts utcnow (JObj kvs) d =
        (if accepts (d\<lparr>inquiries := inquiries d @ [row_i]\<rparr>)
         then (Inr (Response 201 (message ''Inquiry submitted successfully'')),
               d\<lparr>inquiries := inquiries d @ [row_i]\<rparr>)
         else (Inl (HTTPException 500
                 (Formatted ''Failed to create inquiry: '' SQLAlchemyError)), d))"
    by (simp only: create_inquiry_obj)
  from a show "i_id row_i \<notin> set (map i_id (inquiries d))"
    by (simp add: Inquiry_def fresh_id_fresh del: set_map)
  from a show "i_timestamp row_i = utcnow"
    by (simp add: Inquiry_def)
next
  assume a: "set [''name'', ''company'', ''review'', ''rating''] \<subseteq> fst ` set kvs
      \<and> rating_in_range (dict_get kvs ''rating'') = Inr True
      \<and> row_r = Review (dict_get kvs ''name'') (dict_get kvs ''company'') (dict_get kvs ''review'')
               (dict_get kvs ''rating'') (fresh_id (map r_id (reviews d))) utcnow"
  then show "submit_review accepts utcnow (JObj kvs) d =
        (if accepts (d\<lparr>reviews := reviews d @ [row_r]\<rparr>)
         then (Inr (Response 201 (message ''Review submitted successfully'')),
               d\<lparr>reviews := reviews d @ [row_r]\<rparr>)
         else (Inl (HTTPException 500
                 (Formatted ''Failed to submit review: '' SQLAlchemyError)), d))"
    by (simp only: submit_review_obj)
  from a show "r_id row_r \<notin> set (map r_id (reviews d))"
    by (simp add: Review_def fresh_id_fresh del: set_map)
  from a show "r_timestamp row_r = utcnow"
    by (simp add: Review_def)
next
  assume a: "set [''name'', ''email''] \<subseteq> fst ` set kvs
      \<and> row_n = Newsletter (dict_get kvs ''name'') (dict_get kvs ''email'')
               (fresh_id (map n_id (newsletters d))) utcnow"
  then show "create_newsletter accepts utcnow (JObj kvs) d =
        (if accepts (d\<lparr>newsletters := newsletters d @ [row_n]\<rparr>)
         then (Inr (Response 201 (message ''Newsletter subscription submitted successfully'')),
               d\<lparr>newsletters := newsletters d @ [row_n]\<rparr>)
         else (Inl (HTTPException 500
                 (Formatted ''Failed to create newsletter: '' SQLAlchemyError)), d))"
    by (simp only: create_newsletter_obj)
  from a show "n_id row_n \<notin> set (map n_id (newsletters d))"
    by (simp add: Newsletter_def fresh_id_fresh del: set_map)
  from a show "n_timestamp row_n = utcnow"
    by (simp add: Newsletter_def)
qed


text \<open>The theorem at one body that is valid for all three routes.\<close>

theorem create_persists_and_confirms_witness:
  "create_inquiry (\<lambda>d. True) 2000
      (JObj [(''name'', JStr ''Bob''), (''email'', JStr ''bob@acme.example''),
             (''company'', JStr ''Acme''), (''review'', JStr ''Fine''), (''rating'', JInt 4)])
      ada_db
     = (Inr (Response 201 (message ''Inquiry submitted successfully'')),
        ada_db\<lparr>inquiries := [ada_inquiry,
           Inquiry (JStr ''Bob'') (JStr ''bob@acme.example'') JNull (JStr ''Acme'') JNull JNull
             JNull 2 2000]\<rparr>)
   \<and> submit_review (\<lambda>d. True) 2000
      (JObj [(''name'', JStr ''Bob''), (''email'', JStr ''bob@acme.example''),
             (''company'', JStr ''Acme''), (''review'', JStr ''Fine''), (''rating'', JInt 4)])
      ada_db
     = (Inr (Response 201 (message ''Review submitted successfully'')),
        ada_db\<lparr>reviews := [ada_review,
           Review (JStr ''Bob'') (JStr ''Acme'') (JStr ''Fine'') (JInt 4) 2 2000]\<rparr>)
   \<and> create_newsletter (\<lambda>d. True) 2000
      (JObj [(''name'', JStr ''Bob''), (''email'', JStr ''bob@acme.example''),
             (''company'', JStr ''Acme''), (''review'', JStr ''Fine''), (''rating'', JInt 4)])
      ada_db
     = (Inr (Response 201 (message ''Newsletter subscription submitted successfully'')),
        ada_db\<lparr>newsletters := [ada_newsletter,
           Newsletter (JStr ''Bob'') (JStr ''bob@acme.example'') 2 2000]\<rparr>)"
  using create_persists_and_confirms
    [where kvs = "[(''name'', JStr ''Bob''), (''email'', JStr ''bob@acme.example''),
             (''company'', JStr ''Acme''), (''review'', JStr ''Fine''), (''rating'', JInt 4)]"
       and d = ada_db and utcnow = 2000 and accepts = "\<lambda>d. True"
       and row_i = "Inquiry (JStr ''Bob'') (JStr ''bob@acme.example'') JNull (JStr ''Acme'') JNull
             JNull JNull 2 2000"
       and row_r = "Review (JStr ''Bob'') (JStr ''Acme'') (JStr ''Fine'') (JInt 4) 2 2000"
       and row_n = "Newsletter (JStr ''Bob'') (JStr ''bob@acme.example'') 2 2000"]
  by (simp add: dict_get_def fresh_id_def rating_in_range_def ada_db_def ada_inquiry_def
        ada_review_def ada_newsletter_def Inquiry_def Review_def Newsletter_def)

text \<open>
  Claim C7 as stated fails: the response to a valid inquiry is the object with the one key
  \<open>message\<close>; it has no \<open>id\<close>, no \<open>name\<close> and no \<open>timestamp\<close> of the row it created.
\<close>

theorem create_returns_message_only:
  "create_inquiry (\<lambda>d. True) 2000
      (JObj [(''name'', JStr ''Bob''), (''email'', JStr ''bob@acme.example'')]) ada_db
     = (Inr (Response 201 (Json (JObj [(''message'', JStr ''Inquiry submitted successfully'')]))),
        ada_db\<lparr>inquiries := [ada_inquiry,
           Inquiry (JStr ''Bob'') (JStr ''bob@acme.example'') JNull JNull JNull JNull JNull
             2 2000]\<rparr>)
   \<and> py_contains ''id'' (JObj [(''message'', JStr ''Inquiry submitted successfully'')]) = Inr False
   \<and> py_contains ''name'' (JObj [(''message'', JStr ''Inquiry submitted successfully'')]) = Inr False
   \<and> py_contains ''timestamp'' (JObj [(''message'', JStr ''Inquiry submitted successfully'')])
       = Inr False"
  by (simp add: create_inquiry_def create_inquiry_try_def except_Exception_def
        begin_session_def session_commit_def session_add_inquiry_def message_def
        dict_get_def fresh_id_def ada_db_def ada_inquiry_def Inquiry_def)

section \<open>The rating invariant\<close>

lemma rating_in_range_between: "(rating_in_range v = Inr True) = between_1_and_5 v"
  by (cases v) (auto simp: rating_in_range_def between_1_and_5_def split: bool.splits)

lemma between_1_and_5_int: "between_1_and_5 (JInt n) = (n \<in> {1, 2, 3, 4, 5})"
proof -
  have "(1 \<le> (of_int n :: rat) \<and> (of_int n :: rat) \<le> 5) = (1 \<le> n \<and> n \<le> 5)"
    by (metis of_int_1 of_int_le_iff of_int_numeral)
  then show ?thesis
    by (auto simp: between_1_and_5_def)
qed

lemma ok_and_then:
  assumes "ok_result Q r"
    and "\<And>a s. Q a \<Longrightarrow> ratings_ok_session s \<Longrightarrow> ok_result R (k a s)"
  shows "ok_result R (and_then r k)"
proof (cases r)
  case (Pair res s)
  with assms show ?thesis
    by (cases res) (auto simp: ok_result_def)
qed

lemma ok_put_review:
  "ratings_ok_session s \<Longrightarrow> between_1_and_5 (r_rating obj) \<Longrightarrow>
   ratings_ok_session (put_review obj s)"
  by (auto simp: ratings_ok_session_def ratings_between_1_and_5_def put_review_def
        list_all_iff)

lemma ok_review_get_or_404:
  "ratings_ok_session s \<Longrightarrow>
   ok_result (\<lambda>obj. between_1_and_5 (r_rating obj)) (review_get_or_404 ident s)"
  by (auto simp: ok_result_def review_get_or_404_def find_review_def abort_def
        ratings_ok_session_def ratings_between_1_and_5_def list_all_iff find_Some_iff
        split: option.splits)

lemma ok_assign_if:
  assumes "ratings_ok_session s" and "between_1_and_5 (r_rating obj)"
    and "\<And>v r. r_rating (setter v r) = r_rating r"
  shows "ok_result (\<lambda>obj. between_1_and_5 (r_rating obj))
           (assign_if k data setter put_review obj s)"
  using assms
  by (auto simp: ok_result_def assign_if_def ok_put_review
        split: sum.splits bool.splits)

lemma ok_assign_rating:
  assumes "ratings_ok_session s" and "between_1_and_5 (r_rating obj)"
  shows "ok_result (\<lambda>obj. between_1_and_5 (r_rating obj)) (assign_rating data obj s)"
  using assms
  by (auto simp: ok_result_def assign_rating_def ok_put_review abort_def
        rating_in_range_between
        split: sum.splits bool.splits)

lemma ok_session_commit:
  "ratings_ok_session s \<Longrightarrow> ok_result (\<lambda>u. True) (session_commit accepts s)"
  by (auto simp: ok_result_def session_commit_def ratings_ok_session_def)

lemma ok_update_review_try:
  assumes "ratings_ok_session s"
  shows "ok_result (\<lambda>resp. True) (update_review_try accepts refresh_r isoformat review_id data s)"
  unfolding update_review_try_def
  apply (rule ok_and_then [OF ok_review_get_or_404 [OF assms]])
  apply (rule ok_and_then [OF ok_assign_if], assumption, assumption, simp)
  apply (rule ok_and_then [OF ok_assign_if], assumption, assumption, simp)
  apply (rule ok_and_then [OF ok_assign_if], assumption, assumption, simp)
  apply (rule ok_and_then [OF ok_assign_rating], assumption, assumption)
  apply (rule ok_and_then [OF ok_session_commit], assumption)
  apply (simp add: ok_result_def)
  done

lemma ok_except_Exception:
  "ok_result Q r \<Longrightarrow> ratings_between_1_and_5 (snd (except_Exception text_before r))"
  by (cases r)
     (auto simp: ok_result_def except_Exception_def ratings_ok_session_def
        session_rollback_def split: sum.splits)

lemma update_review_keeps_ratings:
  "ratings_between_1_and_5 d \<Longrightarrow>
   ratings_between_1_and_5 (snd (update_review accepts refresh_r isoformat review_id data d))"
  by (auto simp: update_review_def ratings_ok_session_def begin_session_def
        intro!: ok_except_Exception ok_update_review_try)

lemma ok_value:
  "ratings_ok_session s \<Longrightarrow> (\<And>a. res = Inr a \<Longrightarrow> Q a) \<Longrightarrow> ok_result Q (res, s)"
  by (auto simp: ok_result_def split: sum.splits)

lemma ok_session_add_review:
  "ratings_ok_session s \<Longrightarrow> between_1_and_5 rating \<Longrightarrow>
   ratings_ok_session (session_add_review utcnow (Review name company review_text rating) s)"
  by (simp add: session_add_review_def ratings_ok_session_def ratings_between_1_and_5_def
        Review_def)

lemma ok_submit_review_try:
  assumes "ratings_ok_session s" and "py_getitem data ''rating'' = Inr rating"
    and "between_1_and_5 rating"
  shows "ok_result (\<lambda>resp. True) (submit_review_try accepts utcnow data s)"
  unfolding submit_review_try_def
  apply (rule ok_and_then [where Q = "\<lambda>v. True"])
   apply (rule ok_value [OF assms(1)], simp)
  apply (rule ok_and_then [where Q = "\<lambda>v. True"])
   apply (rule ok_value, assumption, simp)
  apply (rule ok_and_then [where Q = "\<lambda>v. True"])
   apply (rule ok_value, assumption, simp)
  apply (rule ok_and_then [where Q = "\<lambda>v. v = rating"])
   apply (rule ok_value, assumption, simp add: assms(2))
  apply (rule ok_and_then [OF ok_session_commit])
   apply (simp add: ok_session_add_review assms(3))
  apply (simp add: ok_result_def)
  done

lemma submit_review_keeps_ratings:
  assumes "ratings_between_1_and_5 d"
  shows "ratings_between_1_and_5 (snd (submit_review accepts utcnow data d))"
proof -
  have "ratings_ok_session (begin_session d)"
    using assms by (simp add: ratings_ok_session_def begin_session_def)
  then show ?thesis using assms
    by (auto simp: submit_review_def rating_in_range_between
          intro!: ok_except_Exception ok_submit_review_try
          split: sum.splits bool.splits)
qed


lemma assign_if_obj:
  "assign_if k (JObj kvs) setter put obj s =
     (case map_of kvs k of
        None \<Rightarrow> (Inr obj, s)
      | Some v \<Rightarrow> (Inr (setter v obj), put (setter v obj) s))"
proof (cases "map_of kvs k")
  case None
  then have "k \<notin> fst ` set kvs" by (simp add: map_of_eq_None_iff)
  with None show ?thesis by (simp add: assign_if_def)
next
  case (Some v)
  then have "k \<in> fst ` set kvs" by (metis domI dom_map_of_conv_image_fst)
  with Some show ?thesis by (simp add: assign_if_def)
qed

lemma put_review_committed: "committed (put_review obj s) = committed s"
  by (simp add: put_review_def)

lemma submit_review_rejects:
  assumes "map_of kvs ''rating'' = Some rating" and "rating_in_range rating \<noteq> Inr True"
  shows "isl (fst (submit_review accepts utcnow (JObj kvs) d))
         \<and> snd (submit_review accepts utcnow (JObj kvs) d) = d"
  using assms
  by (auto simp: submit_review_def abort_def split: sum.splits bool.splits)

lemma update_review_rejects:
  assumes "map_of kvs ''rating'' = Some rating" and "rating_in_range rating \<noteq> Inr True"
  shows "isl (fst (update_review accepts refresh_r isoformat review_id (JObj kvs) d))
         \<and> snd (update_review accepts refresh_r isoformat review_id (JObj kvs) d) = d"
proof -
  from assms(1) have present: "''rating'' \<in> fst ` set kvs"
    by (metis domI dom_map_of_conv_image_fst)
  from assms present have rating: "\<exists>e. assign_rating (JObj kvs) obj s = (Inl e, s)" for obj s
    by (auto simp: assign_rating_def abort_def split: sum.splits bool.splits)
  show ?thesis
  proof (cases "find_review review_id d")
    case None
    then show ?thesis
      by (simp add: update_review_def update_review_try_def review_get_or_404_def
            begin_session_def except_Exception_def session_rollback_def abort_def)
  next
    case (Some old)
    define s0 where "s0 = begin_session d"
    obtain o1 s1 where 1: "assign_if ''name'' (JObj kvs) (\<lambda>v r. r\<lparr>r_name := v\<rparr>) put_review old s0
        = (Inr o1, s1)" and c1: "committed s1 = d"
      by (cases "map_of kvs ''name''")
         (auto simp: assign_if_obj put_review_committed s0_def begin_session_def)
    obtain o2 s2 where 2: "assign_if ''company'' (JObj kvs) (\<lambda>v r. r\<lparr>r_company := v\<rparr>) put_review o1 s1
        = (Inr o2, s2)" and c2: "committed s2 = d"
      using c1 by (cases "map_of kvs ''company''") (auto simp: assign_if_obj put_review_committed)
    obtain o3 s3 where 3: "assign_if ''review'' (JObj kvs) (\<lambda>v r. r\<lparr>r_review := v\<rparr>) put_review o2 s2
        = (Inr o3, s3)" and c3: "committed s3 = d"
      using c2 by (cases "map_of kvs ''review''") (auto simp: assign_if_obj put_review_committed)
    from rating obtain e where 4: "assign_rating (JObj kvs) o3 s3 = (Inl e, s3)"
      by blast
    have w0: "working s0 = d"
      by (simp add: s0_def begin_session_def)
    from assms(1) have "kvs \<noteq> []" by auto
    with Some 1 2 3 4 c3 w0 show ?thesis
      by (simp add: update_review_def update_review_try_def review_get_or_404_def
            except_Exception_def session_rollback_def abort_def s0_def [symmetric])
  qed
qed

text \<open>
  Claim C4, as amended. If every stored rating is a number between 1 and 5, it is so again
  after a review is submitted and after a review is updated, whatever the request and
  whatever its outcome. A write whose rating does not pass the range test (a number
  outside the range, or a value that is no number) is rejected entirely: the handler
  raises and the store is as before, so no field sent with the rating is applied either.
  The range test passes exactly for the numbers between 1 and 5, and an integer passes
  exactly when it is one of 1, 2, 3, 4, 5. The amendment: the test does not ask for an
  integer, so a stored rating is in the range but need not be a member of that set.
\<close>

theorem review_writes_keep_ratings_between_1_and_5:
  "(ratings_between_1_and_5 d \<longrightarrow>
      ratings_between_1_and_5 (snd (submit_review accepts utcnow data d))
      \<and> ratings_between_1_and_5 (snd (update_review accepts refresh_r isoformat review_id data d)))
   \<and> (map_of kvs ''rating'' = Some rating \<and> rating_in_range rating \<noteq> Inr True \<longrightarrow>
        isl (fst (submit_review accepts utcnow (JObj kvs) d))
        \<and> snd (submit_review accepts utcnow (JObj kvs) d) = d
        \<and> isl (fst (update_review accepts refresh_r isoformat review_id (JObj kvs) d))
        \<and> snd (update_review accepts refresh_r isoformat review_id (JObj kvs) d) = d)
   \<and> ((rating_in_range v = Inr True) = between_1_and_5 v)
   \<and> (between_1_and_5 (JInt n) = (n \<in> {1, 2, 3, 4, 5}))"
  using submit_review_keeps_ratings [of d accepts utcnow data]
    update_review_keeps_ratings [of d accepts refresh_r isoformat review_id data]
    submit_review_rejects [of kvs rating accepts utcnow d]
    update_review_rejects [of kvs rating accepts refresh_r isoformat review_id d]
    rating_in_range_between [of v] between_1_and_5_int [of n]
  by blast


text \<open>The theorem at the store with Ada's review: two accepted writes and two rejected.\<close>

theorem review_writes_keep_ratings_between_1_and_5_witness:
  "ratings_between_1_and_5 ada_db
   \<and> ratings_between_1_and_5 (snd (submit_review (\<lambda>d. True) 2000
         (JObj [(''name'', JStr ''Bob''), (''company'', JStr ''Acme''),
                (''review'', JStr ''Fine''), (''rating'', JInt 4)]) ada_db))
   \<and> ratings_between_1_and_5 (snd (update_review (\<lambda>d. True) test_refresh_review test_isoformat 1
         (JObj [(''rating'', JInt 2)]) ada_db))
   \<and> rating_in_range (JInt 6) = Inr False
   \<and> snd (submit_review (\<lambda>d. True) 2000 (JObj [(''name'', JStr ''Bob''), (''rating'', JInt 6)])
           ada_db) = ada_db
   \<and> snd (update_review (\<lambda>d. True) test_refresh_review test_isoformat 1
           (JObj [(''name'', JStr ''Bob''), (''rating'', JInt 6)]) ada_db) = ada_db"
proof -
  have ada: "ratings_between_1_and_5 ada_db"
    by (simp add: ratings_between_1_and_5_def between_1_and_5_def ada_db_def ada_review_def
          Review_def)
  have six: "rating_in_range (JInt 6) = Inr False"
    by (simp add: rating_in_range_def)
  have kept: "ratings_between_1_and_5 (snd (submit_review (\<lambda>d. True) 2000
         (JObj [(''name'', JStr ''Bob''), (''company'', JStr ''Acme''),
                (''review'', JStr ''Fine''), (''rating'', JInt 4)]) ada_db))
     \<and> ratings_between_1_and_5 (snd (update_review (\<lambda>d. True) test_refresh_review test_isoformat 1
         (JObj [(''rating'', JInt 2)]) ada_db))"
    using ada review_writes_keep_ratings_between_1_and_5 [where d = ada_db]
    by blast
  have rejected: "snd (submit_review (\<lambda>d. True) 2000
           (JObj [(''name'', JStr ''Bob''), (''rating'', JInt 6)]) ada_db) = ada_db
     \<and> snd (update_review (\<lambda>d. True) test_refresh_review test_isoformat 1
           (JObj [(''name'', JStr ''Bob''), (''rating'', JInt 6)]) ada_db) = ada_db"
    using six review_writes_keep_ratings_between_1_and_5
      [where kvs = "[(''name'', JStr ''Bob''), (''rating'', JInt 6)]" and rating = "JInt 6"
         and accepts = "\<lambda>d. True" and utcnow = 2000 and isoformat = test_isoformat
         and refresh_r = test_refresh_review
         and review_id = 1 and d = ada_db]
    by simp
  from ada six kept rejected show ?thesis by blast
qed

text \<open>
  Claim C4 as stated fails: the rating 4.5 passes the range test, the review is created
  with status 201, and the rating the handler hands to the store is 4.5, which is none of
  1, 2, 3, 4, 5.
\<close>

theorem fractional_rating_is_stored:
  "submit_review (\<lambda>d. True) 2000
      (JObj [(''name'', JStr ''Bob''), (''company'', JStr ''Acme''),
             (''review'', JStr ''Fine''), (''rating'', JFloat (9 / 2))]) ada_db
     = (Inr (Response 201 (message ''Review submitted successfully'')),
        ada_db\<lparr>reviews := [ada_review,
           Review (JStr ''Bob'') (JStr ''Acme'') (JStr ''Fine'') (JFloat (9 / 2)) 2 2000]\<rparr>)
   \<and> r_rating (Review (JStr ''Bob'') (JStr ''Acme'') (JStr ''Fine'') (JFloat (9 / 2)) 2 2000)
       = JFloat (9 / 2)
   \<and> num_value (JFloat (9 / 2)) = Some (9 / 2)
   \<and> (9 / 2 :: rat) \<notin> {1, 2, 3, 4, 5}"
  by (simp add: submit_review_def submit_review_try_def except_Exception_def
        begin_session_def session_commit_def session_add_review_def rating_in_range_def
        fresh_id_def ada_db_def ada_review_def Review_def)

section \<open>Partial updates\<close>

lemma find_SomeD: "find P xs = Some x \<Longrightarrow> x \<in> set xs \<and> P x"
  by (auto simp: find_Some_iff)

lemma replace_inquiry_same:
  assumes "distinct (map i_id (inquiries d))" and "find_inquiry ident d = Some old"
  shows "replace_inquiry old d = d"
proof -
  from assms(2) have mem: "old \<in> set (inquiries d)"
    by (auto simp: find_inquiry_def dest: find_SomeD)
  have "map (\<lambda>r. if i_id r = i_id old then old else r) (inquiries d) = inquiries d"
  proof (rule map_idI)
    fix r assume "r \<in> set (inquiries d)"
    with mem assms(1) show "(if i_id r = i_id old then old else r) = r"
      by (auto simp: distinct_map dest: inj_onD)
  qed
  then show ?thesis by (simp add: replace_inquiry_def)
qed

lemma replace_review_same:
  assumes "distinct (map r_id (reviews d))" and "find_review ident d = Some old"
  shows "replace_review old d = d"
proof -
  from assms(2) have mem: "old \<in> set (reviews d)"
    by (auto simp: find_review_def dest: find_SomeD)
  have "map (\<lambda>r. if r_id r = r_id old then old else r) (reviews d) = reviews d"
  proof (rule map_idI)
    fix r assume "r \<in> set (reviews d)"
    with mem assms(1) show "(if r_id r = r_id old then old else r) = r"
      by (auto simp: distinct_map dest: inj_onD)
  qed
  then show ?thesis by (simp add: replace_review_def)
qed

lemma replace_newsletter_same:
  assumes "distinct (map n_id (newsletters d))" and "find_newsletter ident d = Some old"
  shows "replace_newsletter old d = d"
proof -
  from assms(2) have mem: "old \<in> set (newsletters d)"
    by (auto simp: find_newsletter_def dest: find_SomeD)
  have "map (\<lambda>r. if n_id r = n_id old then old else r) (newsletters d) = newsletters d"
  proof (rule map_idI)
    fix r assume "r \<in> set (newsletters d)"
    with mem assms(1) show "(if n_id r = n_id old then old else r) = r"
      by (auto simp: distinct_map dest: inj_onD)
  qed
  then show ?thesis by (simp add: replace_newsletter_def)
qed

lemma put_replace_inquiry:
  "i_id new = i_id obj \<Longrightarrow>
   put_inquiry new \<lparr>committed = c, working = replace_inquiry obj d\<rparr>
     = \<lparr>committed = c, working = replace_inquiry new d\<rparr>"
  by (simp add: put_inquiry_def replace_inquiry_def)

lemma put_replace_review:
  "r_id new = r_id obj \<Longrightarrow>
   put_review new \<lparr>committed = c, working = replace_review obj d\<rparr>
     = \<lparr>committed = c, working = replace_review new d\<rparr>"
  by (simp add: put_review_def replace_review_def)

lemma put_replace_newsletter:
  "n_id new = n_id obj \<Longrightarrow>
   put_newsletter new \<lparr>committed = c, working = replace_newsletter obj d\<rparr>
     = \<lparr>committed = c, working = replace_newsletter new d\<rparr>"
  by (simp add: put_newsletter_def replace_newsletter_def)

lemma assign_if_replace_inquiry:
  assumes "\<And>v. i_id (setter v obj) = i_id obj" and "setter (get obj) obj = obj"
  shows "assign_if k (JObj kvs) setter put_inquiry obj
           \<lparr>committed = c, working = replace_inquiry obj d\<rparr>
         = (Inr (setter (supplied kvs k (get obj)) obj),
            \<lparr>committed = c, working = replace_inquiry (setter (supplied kvs k (get obj)) obj) d\<rparr>)"
  using assms
  by (cases "map_of kvs k") (simp_all add: assign_if_obj supplied_def put_replace_inquiry)

lemma assign_if_replace_review:
  assumes "\<And>v. r_id (setter v obj) = r_id obj" and "setter (get obj) obj = obj"
  shows "assign_if k (JObj kvs) setter put_review obj
           \<lparr>committed = c, working = replace_review obj d\<rparr>
         = (Inr (setter (supplied kvs k (get obj)) obj),
            \<lparr>committed = c, working = replace_review (setter (supplied kvs k (get obj)) obj) d\<rparr>)"
  using assms
  by (cases "map_of kvs k") (simp_all add: assign_if_obj supplied_def put_replace_review)

lemma assign_if_replace_newsletter:
  assumes "\<And>v. n_id (setter v obj) = n_id obj" and "setter (get obj) obj = obj"
  shows "assign_if k (JObj kvs) setter put_newsletter obj
           \<lparr>committed = c, working = replace_newsletter obj d\<rparr>
         = (Inr (setter (supplied kvs k (get obj)) obj),
            \<lparr>committed = c, working = replace_newsletter (setter (supplied kvs k (get obj)) obj) d\<rparr>)"
  using assms
  by (cases "map_of kvs k") (simp_all add: assign_if_obj supplied_def put_replace_newsletter)

lemmas inquiry_steps =
  assign_if_replace_inquiry [where setter = "\<lambda>v r. r\<lparr>i_name := v\<rparr>" and get = i_name, simplified]
  assign_if_replace_inquiry [where setter = "\<lambda>v r. r\<lparr>i_email := v\<rparr>" and get = i_email, simplified]
  assign_if_replace_inquiry [where setter = "\<lambda>v r. r\<lparr>i_phone := v\<rparr>" and get = i_phone, simplified]
  assign_if_replace_inquiry [where setter = "\<lambda>v r. r\<lparr>i_company := v\<rparr>" and get = i_company, simplified]
  assign_if_replace_inquiry [where setter = "\<lambda>v r. r\<lparr>i_country := v\<rparr>" and get = i_country, simplified]
  assign_if_replace_inquiry [where setter = "\<lambda>v r. r\<lparr>i_job_title := v\<rparr>" and get = i_job_title, simplified]
  assign_if_replace_inquiry [where setter = "\<lambda>v r. r\<lparr>i_job_details := v\<rparr>" and get = i_job_details, simplified]

lemmas review_steps =
  assign_if_replace_review [where setter = "\<lambda>v r. r\<lparr>r_name := v\<rparr>" and get = r_name, simplified]
  assign_if_replace_review [where setter = "\<lambda>v r. r\<lparr>r_company := v\<rparr>" and get = r_company, simplified]
  assign_if_replace_review [where setter = "\<lambda>v r. r\<lparr>r_review := v\<rparr>" and get = r_review, simplified]

lemmas newsletter_steps =
  assign_if_replace_newsletter [where setter = "\<lambda>v r. r\<lparr>n_name := v\<rparr>" and get = n_name, simplified]
  assign_if_replace_newsletter [where setter = "\<lambda>v r. r\<lparr>n_email := v\<rparr>" and get = n_email, simplified]


lemma update_inquiry_obj:
  assumes "kvs \<noteq> []" and "distinct (map i_id (inquiries d))"
    and "find_inquiry ident d = Some old"
  shows "update_inquiry accepts refresh_i isoformat ident (JObj kvs) d =
     (if accepts (replace_inquiry (patch_inquiry kvs old) d)
      then (Inr (Response 200 (inquiry_json isoformat (refresh_i (patch_inquiry kvs old)))),
            replace_inquiry (patch_inquiry kvs old) d)
      else (Inl (HTTPException 500 (Formatted ''Failed to update inquiry: '' SQLAlchemyError)), d))"
proof -
  have start: "begin_session d = \<lparr>committed = d, working = replace_inquiry old d\<rparr>"
    using assms by (simp add: begin_session_def replace_inquiry_same)
  have found: "inquiry_get_or_404 ident \<lparr>committed = d, working = replace_inquiry old d\<rparr>
      = (Inr old, \<lparr>committed = d, working = replace_inquiry old d\<rparr>)"
    using assms by (simp add: inquiry_get_or_404_def replace_inquiry_same)
  have final: "old\<lparr>i_name := supplied kvs ''name'' (i_name old),
          i_email := supplied kvs ''email'' (i_email old),
          i_phone := supplied kvs ''phone'' (i_phone old),
          i_company := supplied kvs ''company'' (i_company old),
          i_country := supplied kvs ''country'' (i_country old),
          i_job_title := supplied kvs ''job_title'' (i_job_title old),
          i_job_details := supplied kvs ''job_details'' (i_job_details old)\<rparr>
        = patch_inquiry kvs old"
    by (cases old) (simp add: patch_inquiry_def)
  have "update_inquiry_try accepts refresh_i isoformat ident (JObj kvs) (begin_session d) =
     (if accepts (replace_inquiry (patch_inquiry kvs old) d)
      then (Inr (Response 200 (inquiry_json isoformat (refresh_i (patch_inquiry kvs old)))),
            \<lparr>committed = replace_inquiry (patch_inquiry kvs old) d,
             working = replace_inquiry (patch_inquiry kvs old) d\<rparr>)
      else (Inl SQLAlchemyError,
            \<lparr>committed = d, working = replace_inquiry (patch_inquiry kvs old) d\<rparr>))"
    unfolding update_inquiry_try_def start
    by (simp add: found inquiry_steps final session_commit_def)
  with assms(1) show ?thesis
    by (simp add: update_inquiry_def except_Exception_def session_rollback_def abort_def)
qed


lemma assign_rating_replace_review:
  assumes "\<forall>r. map_of kvs ''rating'' = Some r \<longrightarrow> rating_in_range r = Inr True"
  shows "assign_rating (JObj kvs) obj \<lparr>committed = c, working = replace_review obj d\<rparr>
         = (Inr (obj\<lparr>r_rating := supplied kvs ''rating'' (r_rating obj)\<rparr>),
            \<lparr>committed = c,
             working = replace_review (obj\<lparr>r_rating := supplied kvs ''rating'' (r_rating obj)\<rparr>) d\<rparr>)"
proof (cases "map_of kvs ''rating''")
  case None
  then have "''rating'' \<notin> fst ` set kvs" by (simp add: map_of_eq_None_iff)
  with None show ?thesis by (simp add: assign_rating_def supplied_def)
next
  case (Some r)
  then have "''rating'' \<in> fst ` set kvs" by (metis domI dom_map_of_conv_image_fst)
  with Some assms show ?thesis
    by (simp add: assign_rating_def supplied_def put_replace_review)
qed

lemma update_review_obj:
  assumes "kvs \<noteq> []" and "distinct (map r_id (reviews d))"
    and "find_review ident d = Some old"
    and "\<forall>r. map_of kvs ''rating'' = Some r \<longrightarrow> rating_in_range r = Inr True"
  shows "update_review accepts refresh_r isoformat ident (JObj kvs) d =
     (if accepts (replace_review (patch_review kvs old) d)
      then (Inr (Response 200 (review_json isoformat (refresh_r (patch_review kvs old)))),
            replace_review (patch_review kvs old) d)
      else (Inl (HTTPException 500 (Formatted ''Failed to update review: '' SQLAlchemyError)), d))"
proof -
  have start: "begin_session d = \<lparr>committed = d, working = replace_review old d\<rparr>"
    using assms by (simp add: begin_session_def replace_review_same)
  have found: "review_get_or_404 ident \<lparr>committed = d, working = replace_review old d\<rparr>
      = (Inr old, \<lparr>committed = d, working = replace_review old d\<rparr>)"
    using assms by (simp add: review_get_or_404_def replace_review_same)
  have final: "old\<lparr>r_name := supplied kvs ''name'' (r_name old),
          r_company := supplied kvs ''company'' (r_company old),
          r_review := supplied kvs ''review'' (r_review old),
          r_rating := supplied kvs ''rating'' (r_rating old)\<rparr>
        = patch_review kvs old"
    by (cases old) (simp add: patch_review_def)
  have "update_review_try accepts refresh_r isoformat ident (JObj kvs) (begin_session d) =
     (if accepts (replace_review (patch_review kvs old) d)
      then (Inr (Response 200 (review_json isoformat (refresh_r (patch_review kvs old)))),
            \<lparr>committed = replace_review (patch_review kvs old) d,
             working = replace_review (patch_review kvs old) d\<rparr>)
      else (Inl SQLAlchemyError,
            \<lparr>committed = d, working = replace_review (patch_review kvs old) d\<rparr>))"
    unfolding update_review_try_def start
    by (simp add: found review_steps assign_rating_replace_review [OF assms(4)] final
          session_commit_def)
  with assms(1) show ?thesis
    by (simp add: update_review_def except_Exception_def session_rollback_def abort_def)
qed

lemma update_newsletter_obj:
  assumes "kvs \<noteq> []" and "distinct (map n_id (newsletters d))"
    and "find_newsletter ident d = Some old"
  shows "update_newsletter accepts refresh_n isoformat ident (JObj kvs) d =
     (if accepts (replace_newsletter (patch_newsletter kvs old) d)
      then (Inr (Response 200 (newsletter_json isoformat (refresh_n (patch_newsletter kvs old)))),
            replace_newsletter (patch_newsletter kvs old) d)
      else (Inl (HTTPException 500
              (Formatted ''Failed to update newsletter subscription: '' SQLAlchemyError)), d))"
proof -
  have start: "begin_session d = \<lparr>committed = d, working = replace_newsletter old d\<rparr>"
    using assms by (simp add: begin_session_def replace_newsletter_same)
  have found: "newsletter_get_or_404 ident \<lparr>committed = d, working = replace_newsletter old d\<rparr>
      = (Inr old, \<lparr>committed = d, working = replace_newsletter old d\<rparr>)"
    using assms by (simp add: newsletter_get_or_404_def replace_newsletter_same)
  have final: "old\<lparr>n_name := supplied kvs ''name'' (n_name old),
          n_email := supplied kvs ''email'' (n_email old)\<rparr>
        = patch_newsletter kvs old"
    by (cases old) (simp add: patch_newsletter_def)
  have "update_newsletter_try accepts refresh_n isoformat ident (JObj kvs) (begin_session d) =
     (if accepts (replace_newsletter (patch_newsletter kvs old) d)
      then (Inr (Response 200 (newsletter_json isoformat (refresh_n (patch_newsletter kvs old)))),
            \<lparr>committed = replace_newsletter (patch_newsletter kvs old) d,
             working = replace_newsletter (patch_newsletter kvs old) d\<rparr>)
      else (Inl SQLAlchemyError,
            \<lparr>committed = d, working = replace_newsletter (patch_newsletter kvs old) d\<rparr>))"
    unfolding update_newsletter_try_def start
    by (simp add: found newsletter_steps final session_commit_def)
  with assms(1) show ?thesis
    by (simp add: update_newsletter_def except_Exception_def session_rollback_def abort_def)
qed

lemma supplied_extra_key: "k \<noteq> k' \<Longrightarrow> supplied ((k', v) # kvs) k current = supplied kvs k current"
  by (simp add: supplied_def)

lemma patch_inquiry_extra_key:
  "k \<notin> set inquiry_mutable \<Longrightarrow> patch_inquiry ((k, v) # kvs) old = patch_inquiry kvs old"
  by (auto simp: patch_inquiry_def inquiry_mutable_def supplied_extra_key)

lemma patch_review_extra_key:
  "k \<notin> set review_mutable \<Longrightarrow> patch_review ((k, v) # kvs) old = patch_review kvs old"
  by (auto simp: patch_review_def review_mutable_def supplied_extra_key)

lemma patch_newsletter_extra_key:
  "k \<notin> set newsletter_mutable \<Longrightarrow> patch_newsletter ((k, v) # kvs) old = patch_newsletter kvs old"
  by (auto simp: patch_newsletter_def newsletter_mutable_def supplied_extra_key)

lemma rating_not_extra:
  "k \<notin> set review_mutable \<Longrightarrow> map_of ((k, v) # kvs) ''rating'' = map_of kvs ''rating''"
  by (auto simp: review_mutable_def)

text \<open>
  Claim C8. An update of an existing record with a non-empty JSON object applies exactly
  the supplied keys that are mutable fields of the entity: when the storage engine takes
  the commit, the row of that id becomes the old row patched with the supplied values of
  the mutable fields, every other row stays, and the response is 200 with the patched
  record as the engine returns it when the handler reads it back; when the engine refuses,
  nothing changes. The ids of a table are distinct (the id is its primary key). For a
  review the rating, when supplied, passes the range test. A key that is no mutable field
  is ignored: the update with one more such key is the same update. The patched row has
  the id and the timestamp of the old row, whatever the payload holds under \<open>id\<close> and
  \<open>timestamp\<close>. The record returned carries the timestamp the engine returns for the old
  row, provided that what the engine returns for the timestamp of a row depends on the
  timestamp stored and on no other column. A mutable field keeps its value when its key
  is not supplied and takes the supplied value otherwise.
\<close>

theorem update_applies_supplied_mutable_fields_only:
  "(kvs \<noteq> [] \<and> distinct (map i_id (inquiries d)) \<and> find_inquiry ident d = Some old_i \<longrightarrow>
      update_inquiry accepts refresh_i isoformat ident (JObj kvs) d =
        (if accepts (replace_inquiry (patch_inquiry kvs old_i) d)
         then (Inr (Response 200 (inquiry_json isoformat (refresh_i (patch_inquiry kvs old_i)))),
               replace_inquiry (patch_inquiry kvs old_i) d)
         else (Inl (HTTPException 500
                 (Formatted ''Failed to update inquiry: '' SQLAlchemyError)), d))
      \<and> (k \<notin> set inquiry_mutable \<longrightarrow>
           update_inquiry accepts refresh_i isoformat ident (JObj ((k, v) # kvs)) d
             = update_inquiry accepts refresh_i isoformat ident (JObj kvs) d))
   \<and> (kvs \<noteq> [] \<and> distinct (map r_id (reviews d)) \<and> find_review ident d = Some old_r
        \<and> (\<forall>r. map_of kvs ''rating'' = Some r \<longrightarrow> rating_in_range r = Inr True) \<longrightarrow>
      update_review accepts refresh_r isoformat ident (JObj kvs) d =
        (if accepts (replace_review (patch_review kvs old_r) d)
         then (Inr (Response 200 (review_json isoformat (refresh_r (patch_review kvs old_r)))),
               replace_review (patch_review kvs old_r) d)
         else (Inl (HTTPException 500
                 (Formatted ''Failed to update review: '' SQLAlchemyError)), d))
      \<and> (k \<notin> set review_mutable \<longrightarrow>
           update_review accepts refresh_r isoformat ident (JObj ((k, v) # kvs)) d
             = update_review accepts refresh_r isoformat ident (JObj kvs) d))
   \<and> (kvs \<noteq> [] \<and> distinct (map n_id (newsletters d)) \<and> find_newsletter ident d = Some old_n \<longrightarrow>
      update_newsletter accepts refresh_n isoformat ident (JObj kvs) d =
        (if accepts (replace_newsletter (patch_newsletter kvs old_n) d)
         then (Inr (Response 200 (newsletter_json isoformat (refresh_n (patch_newsletter kvs old_n)))),
               replace_newsletter (patch_newsletter kvs old_n) d)
         else (Inl (HTTPException 500
                 (Formatted ''Failed to update newsletter subscription: '' SQLAlchemyError)), d))
      \<and> (k \<notin> set newsletter_mutable \<longrightarrow>
           update_newsletter accepts refresh_n isoformat ident (JObj ((k, v) # kvs)) d
             = update_newsletter accepts refresh_n isoformat ident (JObj kvs) d))
   \<and> i_id (patch_inquiry kvs old_i) = i_id old_i
   \<and> i_timestamp (patch_inquiry kvs old_i) = i_timestamp old_i
   \<and> r_id (patch_review kvs old_r) = r_id old_r
   \<and> r_timestamp (patch_review kvs old_r) = r_timestamp old_r
   \<and> n_id (patch_newsletter kvs old_n) = n_id old_n
   \<and> n_timestamp (patch_newsletter kvs old_n) = n_timestamp old_n
   \<and> ((\<forall>r r'. i_timestamp r = i_timestamp r' \<longrightarrow>
                 i_timestamp (refresh_i r) = i_timestamp (refresh_i r')) \<longrightarrow>
        json_field (inquiry_json isoformat (refresh_i (patch_inquiry kvs old_i))) ''timestamp''
          = json_field (inquiry_json isoformat (refresh_i old_i)) ''timestamp'')
   \<and> ((\<forall>r r'. r_timestamp r = r_timestamp r' \<longrightarrow>
                 r_timestamp (refresh_r r) = r_timestamp (refresh_r r')) \<longrightarrow>
        json_field (review_json isoformat (refresh_r (patch_review kvs old_r))) ''timestamp''
          = json_field (review_json isoformat (refresh_r old_r)) ''timestamp'')
   \<and> ((\<forall>r r'. n_timestamp r = n_timestamp r' \<longrightarrow>
                 n_timestamp (refresh_n r) = n_timestamp (refresh_n r')) \<longrightarrow>
        json_field (newsletter_json isoformat (refresh_n (patch_newsletter kvs old_n))) ''timestamp''
          = json_field (newsletter_json isoformat (refresh_n old_n)) ''timestamp'')
   \<and> json_field (inquiry_json isoformat (refresh_i old_i)) ''timestamp''
        = Some (JStr (isoformat (i_timestamp (refresh_i old_i))))
   \<and> json_field (review_json isoformat (refresh_r old_r)) ''timestamp''
        = Some (JStr (isoformat (r_timestamp (refresh_r old_r))))
   \<and> json_field (newsletter_json isoformat (refresh_n old_n)) ''timestamp''
        = Some (JStr (isoformat (n_timestamp (refresh_n old_n))))
   \<and> (map_of kvs k = None \<longrightarrow> supplied kvs k current = current)
   \<and> (map_of kvs k = Some v \<longrightarrow> supplied kvs k current = v)"
proof -
  have inquiry: "update_inquiry accepts refresh_i isoformat ident (JObj kvs) d =
        (if accepts (replace_inquiry (patch_inquiry kvs old_i) d)
         then (Inr (Response 200 (inquiry_json isoformat (refresh_i (patch_inquiry kvs old_i)))),
               replace_inquiry (patch_inquiry kvs old_i) d)
         else (Inl (HTTPException 500
                 (Formatted ''Failed to update inquiry: '' SQLAlchemyError)), d))
      \<and> (k \<notin> set inquiry_mutable \<longrightarrow>
           update_inquiry accepts refresh_i isoformat ident (JObj ((k, v) # kvs)) d
             = update_inquiry accepts refresh_i isoformat ident (JObj kvs) d)"
    if "kvs \<noteq> [] \<and> distinct (map i_id (inquiries d)) \<and> find_inquiry ident d = Some old_i"
    using that
    by (simp add: update_inquiry_obj patch_inquiry_extra_key)
  have review: "update_review accepts refresh_r isoformat ident (JObj kvs) d =
        (if accepts (replace_review (patch_review kvs old_r) d)
         then (Inr (Response 200 (review_json isoformat (refresh_r (patch_review kvs old_r)))),
               replace_review (patch_review kvs old_r) d)
         else (Inl (HTTPException 500
                 (Formatted ''Failed to update review: '' SQLAlchemyError)), d))
      \<and> (k \<notin> set review_mutable \<longrightarrow>
           update_review accepts refresh_r isoformat ident (JObj ((k, v) # kvs)) d
             = update_review accepts refresh_r isoformat ident (JObj kvs) d)"
    if a: "kvs \<noteq> [] \<and> distinct (map r_id (reviews d)) \<and> find_review ident d = Some old_r
        \<and> (\<forall>r. map_of kvs ''rating'' = Some r \<longrightarrow> rating_in_range r = Inr True)"
  proof (intro conjI impI)
    from a show "update_review accepts refresh_r isoformat ident (JObj kvs) d =
        (if accepts (replace_review (patch_review kvs old_r) d)
         then (Inr (Response 200 (review_json isoformat (refresh_r (patch_review kvs old_r)))),
               replace_review (patch_review kvs old_r) d)
         else (Inl (HTTPException 500
                 (Formatted ''Failed to update review: '' SQLAlchemyError)), d))"
      by (simp add: update_review_obj)
    assume extra: "k \<notin> set review_mutable"
    then have "map_of ((k, v) # kvs) ''rating'' = map_of kvs ''rating''"
      by (rule rating_not_extra)
    with a have "\<forall>r. map_of ((k, v) # kvs) ''rating'' = Some r \<longrightarrow> rating_in_range r = Inr True"
      by (simp del: map_of.simps)
    with a have "update_review accepts refresh_r isoformat ident (JObj ((k, v) # kvs)) d =
        (if accepts (replace_review (patch_review ((k, v) # kvs) old_r) d)
         then (Inr (Response 200 (review_json isoformat (refresh_r (patch_review ((k, v) # kvs) old_r)))),
               replace_review (patch_review ((k, v) # kvs) old_r) d)
         else (Inl (HTTPException 500
                 (Formatted ''Failed to update review: '' SQLAlchemyError)), d))"
      by (intro update_review_obj) simp_all
    with a extra show "update_review accepts refresh_r isoformat ident (JObj ((k, v) # kvs)) d
             = update_review accepts refresh_r isoformat ident (JObj kvs) d"
      by (simp add: update_review_obj patch_review_extra_key)
  qed
  have newsletter: "update_newsletter accepts refresh_n isoformat ident (JObj kvs) d =
        (if accepts (replace_newsletter (patch_newsletter kvs old_n) d)
         then (Inr (Response 200 (newsletter_json isoformat (refresh_n (patch_newsletter kvs old_n)))),
               replace_newsletter (patch_newsletter kvs old_n) d)
         else (Inl (HTTPException 500
                 (Formatted ''Failed to update newsletter subscription: '' SQLAlchemyError)), d))
      \<and> (k \<notin> set newsletter_mutable \<longrightarrow>
           update_newsletter accepts refresh_n isoformat ident (JObj ((k, v) # kvs)) d
             = update_newsletter accepts refresh_n isoformat ident (JObj kvs) d)"
    if "kvs \<noteq> [] \<and> distinct (map n_id (newsletters d)) \<and> find_newsletter ident d = Some old_n"
    using that
    by (simp add: update_newsletter_obj patch_newsletter_extra_key)
  have frame: "i_id (patch_inquiry kvs old_i) = i_id old_i
   \<and> i_timestamp (patch_inquiry kvs old_i) = i_timestamp old_i
   \<and> r_id (patch_review kvs old_r) = r_id old_r
   \<and> r_timestamp (patch_review kvs old_r) = r_timestamp old_r
   \<and> n_id (patch_newsletter kvs old_n) = n_id old_n
   \<and> n_timestamp (patch_newsletter kvs old_n) = n_timestamp old_n"
    by (simp add: patch_inquiry_def patch_review_def patch_newsletter_def)
  have returned: "((\<forall>r r'. i_timestamp r = i_timestamp r' \<longrightarrow>
                 i_timestamp (refresh_i r) = i_timestamp (refresh_i r')) \<longrightarrow>
        json_field (inquiry_json isoformat (refresh_i (patch_inquiry kvs old_i))) ''timestamp''
          = json_field (inquiry_json isoformat (refresh_i old_i)) ''timestamp'')
   \<and> ((\<forall>r r'. r_timestamp r = r_timestamp r' \<longrightarrow>
                 r_timestamp (refresh_r r) = r_timestamp (refresh_r r')) \<longrightarrow>
        json_field (review_json isoformat (refresh_r (patch_review kvs old_r))) ''timestamp''
          = json_field (review_json isoformat (refresh_r old_r)) ''timestamp'')
   \<and> ((\<forall>r r'. n_timestamp r = n_timestamp r' \<longrightarrow>
                 n_timestamp (refresh_n r) = n_timestamp (refresh_n r')) \<longrightarrow>
        json_field (newsletter_json isoformat (refresh_n (patch_newsletter kvs old_n))) ''timestamp''
          = json_field (newsletter_json isoformat (refresh_n old_n)) ''timestamp'')"
  proof (intro conjI impI)
    assume "\<forall>r r'. i_timestamp r = i_timestamp r' \<longrightarrow>
                 i_timestamp (refresh_i r) = i_timestamp (refresh_i r')"
    with frame have "i_timestamp (refresh_i (patch_inquiry kvs old_i)) = i_timestamp (refresh_i old_i)"
      by blast
    then show "json_field (inquiry_json isoformat (refresh_i (patch_inquiry kvs old_i))) ''timestamp''
          = json_field (inquiry_json isoformat (refresh_i old_i)) ''timestamp''"
      by (simp add: inquiry_json_def)
  next
    assume "\<forall>r r'. r_timestamp r = r_timestamp r' \<longrightarrow>
                 r_timestamp (refresh_r r) = r_timestamp (refresh_r r')"
    with frame have "r_timestamp (refresh_r (patch_review kvs old_r)) = r_timestamp (refresh_r old_r)"
      by blast
    then show "json_field (review_json isoformat (refresh_r (patch_review kvs old_r))) ''timestamp''
          = json_field (review_json isoformat (refresh_r old_r)) ''timestamp''"
      by (simp add: review_json_def)
  next
    assume "\<forall>r r'. n_timestamp r = n_timestamp r' \<longrightarrow>
                 n_timestamp (refresh_n r) = n_timestamp (refresh_n r')"
    with frame have "n_timestamp (refresh_n (patch_newsletter kvs old_n)) = n_timestamp (refresh_n old_n)"
      by blast
    then show "json_field (newsletter_json isoformat (refresh_n (patch_newsletter kvs old_n))) ''timestamp''
          = json_field (newsletter_json isoformat (refresh_n old_n)) ''timestamp''"
      by (simp add: newsletter_json_def)
  qed
  have rendered: "json_field (inquiry_json isoformat (refresh_i old_i)) ''timestamp''
        = Some (JStr (isoformat (i_timestamp (refresh_i old_i))))
   \<and> json_field (review_json isoformat (refresh_r old_r)) ''timestamp''
        = Some (JStr (isoformat (r_timestamp (refresh_r old_r))))
   \<and> json_field (newsletter_json isoformat (refresh_n old_n)) ''timestamp''
        = Some (JStr (isoformat (n_timestamp (refresh_n old_n))))"
    by (simp add: inquiry_json_def review_json_def newsletter_json_def)
  have fields: "(map_of kvs k = None \<longrightarrow> supplied kvs k current = current)
   \<and> (map_of kvs k = Some v \<longrightarrow> supplied kvs k current = v)"
    by (simp add: supplied_def)
  from inquiry review newsletter frame returned rendered fields show ?thesis
    by blast
qed


lemma test_isoformat_1000: "test_isoformat 1000 = ''1000''"
  by code_simp

text \<open>
  The theorem at one payload sent to the three update routes: it changes the name (and,
  for the review, the rating), and its keys \<open>color\<close>, \<open>id\<close> and \<open>timestamp\<close> change nothing.
  Then at two payloads whose value is of another type than the column's, with an engine
  that returns the number 123 handed to the name as the text \<open>123\<close> and the boolean true
  handed to the rating as 1: the answer holds what the engine returns.
\<close>

theorem update_applies_supplied_mutable_fields_only_witness:
  "update_inquiry (\<lambda>d. True) test_refresh_inquiry test_isoformat 1
      (JObj [(''color'', JStr ''red''), (''name'', JStr ''Eve''), (''id'', JInt 99),
             (''timestamp'', JStr ''1999''), (''rating'', JInt 4)]) ada_db
     = (Inr (Response 200 (Json (JObj
          [(''id'', JInt 1), (''name'', JStr ''Eve''), (''email'', JStr ''ada@acme.example''),
           (''phone'', JStr ''555''), (''company'', JNull), (''country'', JNull),
           (''job_title'', JNull), (''job_details'', JNull), (''timestamp'', JStr ''1000'')]))),
        ada_db\<lparr>inquiries := [ada_inquiry\<lparr>i_name := JStr ''Eve''\<rparr>]\<rparr>)
   \<and> update_review (\<lambda>d. True) test_refresh_review test_isoformat 1
      (JObj [(''color'', JStr ''red''), (''name'', JStr ''Eve''), (''id'', JInt 99),
             (''timestamp'', JStr ''1999''), (''rating'', JInt 4)]) ada_db
     = (Inr (Response 200 (Json (JObj
          [(''id'', JInt 1), (''name'', JStr ''Eve''), (''company'', JStr ''Acme''),
           (''review'', JStr ''Great''), (''rating'', JInt 4), (''timestamp'', JStr ''1000'')]))),
        ada_db\<lparr>reviews := [ada_review\<lparr>r_name := JStr ''Eve'', r_rating := JInt 4\<rparr>]\<rparr>)
   \<and> update_newsletter (\<lambda>d. True) test_refresh_newsletter test_isoformat 1
      (JObj [(''color'', JStr ''red''), (''name'', JStr ''Eve''), (''id'', JInt 99),
             (''timestamp'', JStr ''1999''), (''rating'', JInt 4)]) ada_db
     = (Inr (Response 200 (Json (JObj
          [(''id'', JInt 1), (''name'', JStr ''Eve''), (''email'', JStr ''ada@acme.example''),
           (''timestamp'', JStr ''1000'')]))),
        ada_db\<lparr>newsletters := [ada_newsletter\<lparr>n_name := JStr ''Eve''\<rparr>]\<rparr>)
   \<and> update_inquiry (\<lambda>d. True) test_refresh_inquiry test_isoformat 1
      (JObj [(''color'', JStr ''red''), (''name'', JStr ''Eve''), (''id'', JInt 99),
             (''timestamp'', JStr ''1999''), (''rating'', JInt 4)]) ada_db
     = update_inquiry (\<lambda>d. True) test_refresh_inquiry test_isoformat 1
      (JObj [(''name'', JStr ''Eve''), (''id'', JInt 99),
             (''timestamp'', JStr ''1999''), (''rating'', JInt 4)]) ada_db
   \<and> fst (update_inquiry (\<lambda>d. True) test_refresh_inquiry test_isoformat 1
            (JObj [(''name'', JInt 123)]) ada_db)
     = Inr (Response 200 (Json (JObj
          [(''id'', JInt 1), (''name'', JStr ''123''), (''email'', JStr ''ada@acme.example''),
           (''phone'', JStr ''555''), (''company'', JNull), (''country'', JNull),
           (''job_title'', JNull), (''job_details'', JNull), (''timestamp'', JStr ''1000'')])))
   \<and> fst (update_review (\<lambda>d. True) test_refresh_review test_isoformat 1
            (JObj [(''rating'', JBool True)]) ada_db)
     = Inr (Response 200 (Json (JObj
          [(''id'', JInt 1), (''name'', JStr ''Ada''), (''company'', JStr ''Acme''),
           (''review'', JStr ''Great''), (''rating'', JInt 1), (''timestamp'', JStr ''1000'')])))
   \<and> json_field (inquiry_json test_isoformat
         (test_refresh_inquiry (patch_inquiry [(''timestamp'', JStr ''1999'')] ada_inquiry)))
         ''timestamp''
     = json_field (inquiry_json test_isoformat (test_refresh_inquiry ada_inquiry)) ''timestamp''"
proof -
  note at_ada = update_applies_supplied_mutable_fields_only
    [where d = ada_db and ident = 1 and accepts = "\<lambda>d. True" and isoformat = test_isoformat
       and refresh_i = test_refresh_inquiry and refresh_r = test_refresh_review
       and refresh_n = test_refresh_newsletter
       and old_i = ada_inquiry and old_r = ada_review and old_n = ada_newsletter]
  have found: "distinct (map i_id (inquiries ada_db)) \<and> find_inquiry 1 ada_db = Some ada_inquiry
     \<and> distinct (map r_id (reviews ada_db)) \<and> find_review 1 ada_db = Some ada_review
     \<and> distinct (map n_id (newsletters ada_db)) \<and> find_newsletter 1 ada_db = Some ada_newsletter"
    by (simp add: find_inquiry_def find_review_def find_newsletter_def ada_db_def
          ada_inquiry_def ada_review_def ada_newsletter_def Inquiry_def Review_def
          Newsletter_def)
  have in_range: "rating_in_range (JInt 4) = Inr True" "rating_in_range (JBool True) = Inr True"
    by (simp_all add: rating_in_range_def)
  have text_123: "text_column (JInt 123) = JStr ''123''"
    by code_simp
  have full: "update_inquiry (\<lambda>d. True) test_refresh_inquiry test_isoformat 1
      (JObj [(''color'', JStr ''red''), (''name'', JStr ''Eve''), (''id'', JInt 99),
             (''timestamp'', JStr ''1999''), (''rating'', JInt 4)]) ada_db
     = (Inr (Response 200 (Json (JObj
          [(''id'', JInt 1), (''name'', JStr ''Eve''), (''email'', JStr ''ada@acme.example''),
           (''phone'', JStr ''555''), (''company'', JNull), (''country'', JNull),
           (''job_title'', JNull), (''job_details'', JNull), (''timestamp'', JStr ''1000'')]))),
        ada_db\<lparr>inquiries := [ada_inquiry\<lparr>i_name := JStr ''Eve''\<rparr>]\<rparr>)
   \<and> update_review (\<lambda>d. True) test_refresh_review test_isoformat 1
      (JObj [(''color'', JStr ''red''), (''name'', JStr ''Eve''), (''id'', JInt 99),
             (''timestamp'', JStr ''1999''), (''rating'', JInt 4)]) ada_db
     = (Inr (Response 200 (Json (JObj
          [(''id'', JInt 1), (''name'', JStr ''Eve''), (''company'', JStr ''Acme''),
           (''review'', JStr ''Great''), (''rating'', JInt 4), (''timestamp'', JStr ''1000'')]))),
        ada_db\<lparr>reviews := [ada_review\<lparr>r_name := JStr ''Eve'', r_rating := JInt 4\<rparr>]\<rparr>)
   \<and> update_newsletter (\<lambda>d. True) test_refresh_newsletter test_isoformat 1
      (JObj [(''color'', JStr ''red''), (''name'', JStr ''Eve''), (''id'', JInt 99),
             (''timestamp'', JStr ''1999''), (''rating'', JInt 4)]) ada_db
     = (Inr (Response 200 (Json (JObj
          [(''id'', JInt 1), (''name'', JStr ''Eve''), (''email'', JStr ''ada@acme.example''),
           (''timestamp'', JStr ''1000'')]))),
        ada_db\<lparr>newsletters := [ada_newsletter\<lparr>n_name := JStr ''Eve''\<rparr>]\<rparr>)"
    using found in_range
      at_ada [where kvs = "[(''color'', JStr ''red''), (''name'', JStr ''Eve''), (''id'', JInt 99),
             (''timestamp'', JStr ''1999''), (''rating'', JInt 4)]"]
    by (simp add: patch_inquiry_def patch_review_def patch_newsletter_def supplied_def
          replace_inquiry_def replace_review_def replace_newsletter_def
          inquiry_json_def review_json_def newsletter_json_def test_isoformat_1000
          test_refresh_inquiry_def test_refresh_review_def test_refresh_newsletter_def
          ada_db_def ada_inquiry_def ada_review_def ada_newsletter_def Inquiry_def Review_def
          Newsletter_def)
  have extra: "update_inquiry (\<lambda>d. True) test_refresh_inquiry test_isoformat 1
      (JObj [(''color'', JStr ''red''), (''name'', JStr ''Eve''), (''id'', JInt 99),
             (''timestamp'', JStr ''1999''), (''rating'', JInt 4)]) ada_db
     = update_inquiry (\<lambda>d. True) test_refresh_inquiry test_isoformat 1
      (JObj [(''name'', JStr ''Eve''), (''id'', JInt 99),
             (''timestamp'', JStr ''1999''), (''rating'', JInt 4)]) ada_db"
    using found
      at_ada [where kvs = "[(''name'', JStr ''Eve''), (''id'', JInt 99),
             (''timestamp'', JStr ''1999''), (''rating'', JInt 4)]"
         and k = "''color''" and v = "JStr ''red''"]
    by (simp add: inquiry_mutable_def)
  have number_as_text: "fst (update_inquiry (\<lambda>d. True) test_refresh_inquiry test_isoformat 1
            (JObj [(''name'', JInt 123)]) ada_db)
     = Inr (Response 200 (Json (JObj
          [(''id'', JInt 1), (''name'', JStr ''123''), (''email'', JStr ''ada@acme.example''),
           (''phone'', JStr ''555''), (''company'', JNull), (''country'', JNull),
           (''job_title'', JNull), (''job_details'', JNull), (''timestamp'', JStr ''1000'')])))"
    using found at_ada [where kvs = "[(''name'', JInt 123)]"]
    by (simp add: patch_inquiry_def supplied_def inquiry_json_def test_isoformat_1000
          test_refresh_inquiry_def text_123 ada_inquiry_def Inquiry_def
          del: text_column.simps(1))
  have true_as_one: "fst (update_review (\<lambda>d. True) test_refresh_review test_isoformat 1
            (JObj [(''rating'', JBool True)]) ada_db)
     = Inr (Response 200 (Json (JObj
          [(''id'', JInt 1), (''name'', JStr ''Ada''), (''company'', JStr ''Acme''),
           (''review'', JStr ''Great''), (''rating'', JInt 1), (''timestamp'', JStr ''1000'')])))"
    using found in_range at_ada [where kvs = "[(''rating'', JBool True)]"]
    by (simp add: patch_review_def supplied_def review_json_def test_isoformat_1000
          test_refresh_review_def ada_review_def Review_def)
  have same_timestamp: "json_field (inquiry_json test_isoformat
         (test_refresh_inquiry (patch_inquiry [(''timestamp'', JStr ''1999'')] ada_inquiry)))
         ''timestamp''
     = json_field (inquiry_json test_isoformat (test_refresh_inquiry ada_inquiry)) ''timestamp''"
  proof -
    have "\<forall>r r'. i_timestamp r = i_timestamp r' \<longrightarrow>
            i_timestamp (test_refresh_inquiry r) = i_timestamp (test_refresh_inquiry r')"
      by (simp add: test_refresh_inquiry_def)
    with at_ada [where kvs = "[(''timestamp'', JStr ''1999'')]"] show ?thesis
      by blast
  qed
  from full extra number_as_text true_as_one same_timestamp show ?thesis by blast
qed

section \<open>Further properties\<close>

subsection \<open>An update with no data\<close>

text \<open>
  An update whose body is the empty object, or \<open>null\<close>, is answered with 400 "No data
  provided" before the record is looked up: the store is as before, whether the id exists
  or not.
\<close>

theorem update_with_empty_body_is_400:
  "update_inquiry accepts refresh_i isoformat ident (JObj []) d
     = (Inl (HTTPException 400 (Text ''No data provided'')), d)
   \<and> update_review accepts refresh_r isoformat ident (JObj []) d
     = (Inl (HTTPException 400 (Text ''No data provided'')), d)
   \<and> update_newsletter accepts refresh_n isoformat ident (JObj []) d
     = (Inl (HTTPException 400 (Text ''No data provided'')), d)
   \<and> update_inquiry accepts refresh_i isoformat ident JNull d
     = (Inl (HTTPException 400 (Text ''No data provided'')), d)
   \<and> update_review accepts refresh_r isoformat ident JNull d
     = (Inl (HTTPException 400 (Text ''No data provided'')), d)
   \<and> update_newsletter accepts refresh_n isoformat ident JNull d
     = (Inl (HTTPException 400 (Text ''No data provided'')), d)"
  by (simp add: update_inquiry_def update_review_def update_newsletter_def abort_def)

subsection \<open>Login\<close>

text \<open>
  A login whose body is a JSON object with a username and a password succeeds exactly when
  both equal the configured values, and then returns the token the encoder signs for the
  payload with \<open>admin\<close> true, the username sent and the expiry one hour after the server's
  time, together with that expiry. A wrong username and a wrong password get the same
  answer, 401 "Invalid credentials". A body without one of the two keys gets 400.
\<close>

theorem login_answers:
  "(map_of kvs ''username'' = Some username \<and> map_of kvs ''password'' = Some password \<longrightarrow>
      login environ key jwt_encode isoformat utcnow (JObj kvs) =
        (if username = getenv_value environ ''ADMIN_USERNAME''
            \<and> password = getenv_value environ ''ADMIN_PASSWORD''
         then Inr (Response 200 (Json (JObj
                [(''token'', JStr (jwt_encode
                    [(''admin'', JBool True), (''username'', username),
                     (''exp'', JInt (utcnow + 3600))] key)),
                 (''expires_at'', JStr (isoformat (utcnow + 3600))),
                 (''dashboard_url'', JStr ''/admin'')])))
         else Inl (HTTPException 401 (Text ''Invalid credentials''))))
   \<and> (map_of kvs ''username'' = None \<or> map_of kvs ''password'' = None \<longrightarrow>
      login environ key jwt_encode isoformat utcnow (JObj kvs) =
        Inl (HTTPException 400 (Text ''Username and password are required'')))"
proof (intro conjI impI)
  assume a: "map_of kvs ''username'' = Some username \<and> map_of kvs ''password'' = Some password"
  then have "''username'' \<in> fst ` set kvs" "''password'' \<in> fst ` set kvs"
    by (metis domI dom_map_of_conv_image_fst)+
  moreover from a have "kvs \<noteq> []" by auto
  ultimately show "login environ key jwt_encode isoformat utcnow (JObj kvs) =
        (if username = getenv_value environ ''ADMIN_USERNAME''
            \<and> password = getenv_value environ ''ADMIN_PASSWORD''
         then Inr (Response 200 (Json (JObj
                [(''token'', JStr (jwt_encode
                    [(''admin'', JBool True), (''username'', username),
                     (''exp'', JInt (utcnow + 3600))] key)),
                 (''expires_at'', JStr (isoformat (utcnow + 3600))),
                 (''dashboard_url'', JStr ''/admin'')])))
         else Inl (HTTPException 401 (Text ''Invalid credentials'')))"
    using a by (simp add: login_def abort_def any_missing_obj del: any_missing.simps)
next
  assume "map_of kvs ''username'' = None \<or> map_of kvs ''password'' = None"
  then have "''username'' \<notin> fst ` set kvs \<or> ''password'' \<notin> fst ` set kvs"
    by (simp add: map_of_eq_None_iff)
  then show "login environ key jwt_encode isoformat utcnow (JObj kvs) =
        Inl (HTTPException 400 (Text ''Username and password are required''))"
    by (auto simp: login_def abort_def any_missing_obj simp del: any_missing.simps)
qed

text \<open>The theorem at four requests.\<close>

theorem login_answers_witness:
  "login test_admin_environ ''s3cret'' test_encode test_isoformat 1000
      (JObj [(''username'', JStr ''root''), (''password'', JStr ''hunter2'')])
     = Inr (Response 200 (Json (JObj
          [(''token'', JStr ''good''), (''expires_at'', JStr ''4600''),
           (''dashboard_url'', JStr ''/admin'')])))
   \<and> login test_admin_environ ''s3cret'' test_encode test_isoformat 1000
      (JObj [(''username'', JStr ''root''), (''password'', JStr ''guess'')])
     = Inl (HTTPException 401 (Text ''Invalid credentials''))
   \<and> login test_admin_environ ''s3cret'' test_encode test_isoformat 1000
      (JObj [(''username'', JStr ''ada''), (''password'', JStr ''hunter2'')])
     = Inl (HTTPException 401 (Text ''Invalid credentials''))
   \<and> login test_admin_environ ''s3cret'' test_encode test_isoformat 1000
      (JObj [(''username'', JStr ''root'')])
     = Inl (HTTPException 400 (Text ''Username and password are required''))"
proof -
  have iso: "test_isoformat 4600 = ''4600''" by code_simp
  note at = login_answers [where environ = test_admin_environ and key = "''s3cret''"
      and jwt_encode = test_encode and isoformat = test_isoformat and utcnow = 1000]
  have ok: "login test_admin_environ ''s3cret'' test_encode test_isoformat 1000
      (JObj [(''username'', JStr ''root''), (''password'', JStr ''hunter2'')])
     = Inr (Response 200 (Json (JObj
          [(''token'', JStr ''good''), (''expires_at'', JStr ''4600''),
           (''dashboard_url'', JStr ''/admin'')])))"
    using at [where kvs = "[(''username'', JStr ''root''), (''password'', JStr ''hunter2'')]"
        and username = "JStr ''root''" and password = "JStr ''hunter2''"]
    by (simp add: test_admin_environ_def test_environ_def getenv_value_def test_encode_def iso)
  have wrong_password: "login test_admin_environ ''s3cret'' test_encode test_isoformat 1000
      (JObj [(''username'', JStr ''root''), (''password'', JStr ''guess'')])
     = Inl (HTTPException 401 (Text ''Invalid credentials''))"
    using at [where kvs = "[(''username'', JStr ''root''), (''password'', JStr ''guess'')]"
        and username = "JStr ''root''" and password = "JStr ''guess''"]
    by (simp add: test_admin_environ_def test_environ_def getenv_value_def)
  have wrong_username: "login test_admin_environ ''s3cret'' test_encode test_isoformat 1000
      (JObj [(''username'', JStr ''ada''), (''password'', JStr ''hunter2'')])
     = Inl (HTTPException 401 (Text ''Invalid credentials''))"
    using at [where kvs = "[(''username'', JStr ''ada''), (''password'', JStr ''hunter2'')]"
        and username = "JStr ''ada''" and password = "JStr ''hunter2''"]
    by (simp add: test_admin_environ_def test_environ_def getenv_value_def)
  have incomplete: "login test_admin_environ ''s3cret'' test_encode test_isoformat 1000
      (JObj [(''username'', JStr ''root'')])
     = Inl (HTTPException 400 (Text ''Username and password are required''))"
    using at [where kvs = "[(''username'', JStr ''root'')]"]
    by simp
  from ok wrong_password wrong_username incomplete show ?thesis by blast
qed

subsection \<open>Deleting an existing record\<close>

text \<open>
  A delete of an id that has a record removes the rows of that id and no other, when the
  storage engine takes the commit, and answers 200 with a message that names the id; when
  the engine refuses, the answer is 500 and the store is as before.
\<close>

theorem delete_removes_the_record:
  "(find_inquiry ident d = Some old_i \<longrightarrow>
      delete_inquiry accepts ident d =
        (if accepts (d\<lparr>inquiries := filter (\<lambda>r. i_id r \<noteq> ident) (inquiries d)\<rparr>)
         then (Inr (Response 200 (message (''Inquiry '' @ str_nat ident @ '' deleted successfully''))),
               d\<lparr>inquiries := filter (\<lambda>r. i_id r \<noteq> ident) (inquiries d)\<rparr>)
         else (Inl (HTTPException 500
                 (Formatted ''Failed to delete inquiry: '' SQLAlchemyError)), d)))
   \<and> (find_review ident d = Some old_r \<longrightarrow>
      delete_review accepts ident d =
        (if accepts (d\<lparr>reviews := filter (\<lambda>r. r_id r \<noteq> ident) (reviews d)\<rparr>)
         then (Inr (Response 200 (message (''Review '' @ str_nat ident @ '' deleted successfully''))),
               d\<lparr>reviews := filter (\<lambda>r. r_id r \<noteq> ident) (reviews d)\<rparr>)
         else (Inl (HTTPException 500
                 (Formatted ''Failed to delete review: '' SQLAlchemyError)), d)))
   \<and> (find_newsletter ident d = Some old_n \<longrightarrow>
      delete_newsletter accepts ident d =
        (if accepts (d\<lparr>newsletters := filter (\<lambda>r. n_id r \<noteq> ident) (newsletters d)\<rparr>)
         then (Inr (Response 200 (message (''Newsletter subscription '' @ str_nat ident
                                             @ '' deleted successfully''))),
               d\<lparr>newsletters := filter (\<lambda>r. n_id r \<noteq> ident) (newsletters d)\<rparr>)
         else (Inl (HTTPException 500
                 (Formatted ''Failed to delete newsletter subscription: '' SQLAlchemyError)), d)))"
proof (intro conjI impI)
  assume a: "find_inquiry ident d = Some old_i"
  then have "i_id old_i = ident" by (auto simp: find_inquiry_def dest: find_SomeD)
  with a show "delete_inquiry accepts ident d =
        (if accepts (d\<lparr>inquiries := filter (\<lambda>r. i_id r \<noteq> ident) (inquiries d)\<rparr>)
         then (Inr (Response 200 (message (''Inquiry '' @ str_nat ident @ '' deleted successfully''))),
               d\<lparr>inquiries := filter (\<lambda>r. i_id r \<noteq> ident) (inquiries d)\<rparr>)
         else (Inl (HTTPException 500
                 (Formatted ''Failed to delete inquiry: '' SQLAlchemyError)), d))"
    by (simp add: delete_inquiry_def delete_inquiry_try_def inquiry_get_or_404_def
          except_Exception_def begin_session_def session_commit_def session_rollback_def
          session_delete_inquiry_def abort_def del: str_nat.simps)
next
  assume a: "find_review ident d = Some old_r"
  then have "r_id old_r = ident" by (auto simp: find_review_def dest: find_SomeD)
  with a show "delete_review accepts ident d =
        (if accepts (d\<lparr>reviews := filter (\<lambda>r. r_id r \<noteq> ident) (reviews d)\<rparr>)
         then (Inr (Response 200 (message (''Review '' @ str_nat ident @ '' deleted successfully''))),
               d\<lparr>reviews := filter (\<lambda>r. r_id r \<noteq> ident) (reviews d)\<rparr>)
         else (Inl (HTTPException 500
                 (Formatted ''Failed to delete review: '' SQLAlchemyError)), d))"
    by (simp add: delete_review_def delete_review_try_def review_get_or_404_def
          except_Exception_def begin_session_def session_commit_def session_rollback_def
          session_delete_review_def abort_def del: str_nat.simps)
next
  assume a: "find_newsletter ident d = Some old_n"
  then have "n_id old_n = ident" by (auto simp: find_newsletter_def dest: find_SomeD)
  with a show "delete_newsletter accepts ident d =
        (if accepts (d\<lparr>newsletters := filter (\<lambda>r. n_id r \<noteq> ident) (newsletters d)\<rparr>)
         then (Inr (Response 200 (message (''Newsletter subscription '' @ str_nat ident
                                             @ '' deleted successfully''))),
               d\<lparr>newsletters := filter (\<lambda>r. n_id r \<noteq> ident) (newsletters d)\<rparr>)
         else (Inl (HTTPException 500
                 (Formatted ''Failed to delete newsletter subscription: '' SQLAlchemyError)), d))"
    by (simp add: delete_newsletter_def delete_newsletter_try_def newsletter_get_or_404_def
          except_Exception_def begin_session_def session_commit_def session_rollback_def
          session_delete_newsletter_def abort_def del: str_nat.simps)
qed

text \<open>The theorem at the store with Ada's three records.\<close>

theorem delete_removes_the_record_witness:
  "delete_inquiry (\<lambda>d. True) 1 ada_db
     = (Inr (Response 200 (message ''Inquiry 1 deleted successfully'')), ada_db\<lparr>inquiries := []\<rparr>)
   \<and> delete_review (\<lambda>d. True) 1 ada_db
     = (Inr (Response 200 (message ''Review 1 deleted successfully'')), ada_db\<lparr>reviews := []\<rparr>)
   \<and> delete_newsletter (\<lambda>d. True) 1 ada_db
     = (Inr (Response 200 (message ''Newsletter subscription 1 deleted successfully'')),
        ada_db\<lparr>newsletters := []\<rparr>)"
proof -
  have one: "str_nat (Suc 0) = ''1''" by code_simp
  have found: "find_inquiry 1 ada_db = Some ada_inquiry \<and> find_review 1 ada_db = Some ada_review
     \<and> find_newsletter 1 ada_db = Some ada_newsletter"
    by (simp add: find_inquiry_def find_review_def find_newsletter_def ada_db_def
          ada_inquiry_def ada_review_def ada_newsletter_def Inquiry_def Review_def
          Newsletter_def)
  have gone: "filter (\<lambda>r. i_id r \<noteq> 1) (inquiries ada_db) = []
     \<and> filter (\<lambda>r. r_id r \<noteq> 1) (reviews ada_db) = []
     \<and> filter (\<lambda>r. n_id r \<noteq> 1) (newsletters ada_db) = []"
    by (simp add: ada_db_def ada_inquiry_def ada_review_def ada_newsletter_def Inquiry_def
          Review_def Newsletter_def)
  show ?thesis
    using found gone
      delete_removes_the_record [where d = ada_db and ident = 1 and accepts = "\<lambda>d. True"
        and old_i = ada_inquiry and old_r = ada_review and old_n = ada_newsletter]
    by (simp add: one del: str_nat.simps)
qed

end
